theory Spec2Isabelle
  imports Main
begin

section \<open>Python values used by \<open>start.py\<close>\<close>

text \<open>
  \<open>str(n)\<close> and the f-string rendering \<open>f"{n}"\<close> of a Python \<open>int\<close>: the decimal
  digits, most significant first, with a leading minus sign for a negative number.
\<close>

definition digit_char :: "nat \<Rightarrow> char" where
  "digit_char d = ''0123456789'' ! d"

fun str_nat :: "nat \<Rightarrow> string" where
  "str_nat n = (if n < 10 then [digit_char n] else str_nat (n div 10) @ [digit_char (n mod 10)])"

declare str_nat.simps [simp del]

definition str_int :: "int \<Rightarrow> string" where
  "str_int i = (if i < 0 then CHR ''-'' # str_nat (nat (- i)) else str_nat (nat i))"

text \<open>\<open>' ' * n\<close>: the empty string when \<open>n\<close> is negative.\<close>

definition spaces_of :: "int \<Rightarrow> string" where
  "spaces_of n = replicate (nat n) CHR '' ''"

text \<open>
  The value tree that \<open>dict_to_yaml\<close> receives: a \<open>str\<close>, an \<open>int\<close>, a \<open>dict\<close> with
  string keys in insertion order, or a \<open>list\<close>.
\<close>

datatype yval =
    YStr string
  | YInt int
  | YDict "(string \<times> yval) list"
  | YList "yval list"

text \<open>\<open>isinstance(value, dict) or isinstance(value, list)\<close>\<close>

fun is_container :: "yval \<Rightarrow> bool" where
  "is_container (YDict _) = True"
| "is_container (YList _) = True"
| "is_container _ = False"

text \<open>\<open>f"{value}"\<close> for a scalar; a container never reaches this formatting in the source.\<close>

fun fmt :: "yval \<Rightarrow> string" where
  "fmt (YStr s) = s"
| "fmt (YInt n) = str_int n"
| "fmt _ = []"

section \<open>The serializer \<open>dict_to_yaml\<close>\<close>

text \<open>
  \<open>dict_to_yaml(data, indent_spaces, base_indent, additional_spaces, add_text_on_dict)\<close>.
  \<open>dict_items\<close> is the \<open>for key, value in data.items()\<close> loop; it carries the two
  variables the loop body reassigns, \<open>spaces\<close> and \<open>add_text_on_dict\<close>. \<open>list_items\<close>
  is the \<open>for item in data\<close> loop. \<open>yaml += ...\<close> is concatenation in loop order.
\<close>

fun dict_to_yaml :: "yval \<Rightarrow> int \<Rightarrow> int \<Rightarrow> int \<Rightarrow> string option \<Rightarrow> string"
  and dict_items :: "(string \<times> yval) list \<Rightarrow> int \<Rightarrow> int \<Rightarrow> int \<Rightarrow> string \<Rightarrow> string option \<Rightarrow> string"
  and list_items :: "yval list \<Rightarrow> int \<Rightarrow> int \<Rightarrow> int \<Rightarrow> string"
where
  "dict_to_yaml (YDict kvs) indent_spaces base_indent additional_spaces add_text_on_dict =
     dict_items kvs indent_spaces base_indent additional_spaces
       (spaces_of (indent_spaces * base_indent + additional_spaces)) add_text_on_dict"
| "dict_to_yaml (YList xs) indent_spaces base_indent additional_spaces add_text_on_dict =
     list_items xs indent_spaces base_indent additional_spaces"
| "dict_to_yaml (YStr s) indent_spaces base_indent additional_spaces add_text_on_dict =
     s @ ''\<newline>''"
| "dict_to_yaml (YInt n) indent_spaces base_indent additional_spaces add_text_on_dict =
     str_int n @ ''\<newline>''"
| "dict_items [] indent_spaces base_indent additional_spaces spaces add_text_on_dict = []"
| "dict_items ((key, val) # rest) indent_spaces base_indent additional_spaces spaces add_text_on_dict =
     (let spaces1 =
            (case add_text_on_dict of
               None \<Rightarrow> spaces
             | Some txt \<Rightarrow> spaces_of (max (int (length spaces) - int (length txt)) 0) @ txt)
      in (if is_container val
          then spaces1 @ key @ '':\<newline>''
               @ dict_to_yaml val indent_spaces (base_indent + 1) additional_spaces None
          else spaces1 @ key @ '': '' @ fmt val @ ''\<newline>'')
         @ dict_items rest indent_spaces base_indent additional_spaces
             (spaces_of (indent_spaces * base_indent + additional_spaces)) None)"
| "list_items [] indent_spaces base_indent additional_spaces = []"
| "list_items (item # rest) indent_spaces base_indent additional_spaces =
     (case item of
        YDict kvs \<Rightarrow>
          dict_to_yaml item indent_spaces base_indent (additional_spaces + 2) (Some ''- '')
      | YList ys \<Rightarrow>
          dict_to_yaml item indent_spaces (base_indent + 1) additional_spaces None
      | _ \<Rightarrow>
          spaces_of (indent_spaces * base_indent + additional_spaces) @ ''- '' @ fmt item @ ''\<newline>'')
     @ list_items rest indent_spaces base_indent additional_spaces"

section \<open>Building a \<open>dict\<close>\<close>

text \<open>
  \<open>d[k] = v\<close> on an insertion-ordered \<open>dict\<close>: a key already present keeps its place and
  takes the new value, a new key goes to the end.
\<close>

fun dict_set :: "(string \<times> 'v) list \<Rightarrow> string \<Rightarrow> 'v \<Rightarrow> (string \<times> 'v) list" where
  "dict_set [] k v = [(k, v)]"
| "dict_set ((k', v') # d) k v = (if k' = k then (k, v) # d else (k', v') # dict_set d k v)"

text \<open>
  A dict display or comprehension: the items are inserted left to right. A \<open>**inner\<close>
  entry contributes the items of the dict \<open>inner\<close>, in their order.
\<close>

definition py_dict :: "(string \<times> 'v) list \<Rightarrow> (string \<times> 'v) list" where
  "py_dict items = foldl (\<lambda>d (k, v). dict_set d k v) [] items"

section \<open>The configuration model\<close>

record PinEntry =
  pin :: string
  profile :: int

text \<open>
  The dataclass \<open>Team\<close>. The fields \<open>id\<close> and \<open>image\<close> carry a suffix, since both names
  are constants of HOL.
\<close>

record Team =
  id_team :: int
  name :: string
  token :: string
  wireguard_port :: int
  nop :: bool
  image_team :: string
  pins :: "PinEntry list"

text \<open>
  The dataclass \<open>Config\<close>. Its field \<open>submission_timeout\<close>, a \<open>float\<close> that
  \<open>write_compose\<close> never reads, is left out.
\<close>

record Config =
  wireguard_start_port :: int
  wireguard_profiles :: int
  server_addr :: string
  dns :: string
  tick_time :: int
  flag_expire_ticks :: int
  initial_service_score :: int
  max_flags_per_request :: int
  network_limit_bandwidth :: string
  max_vm_cpus :: string
  max_vm_mem :: string
  gameserver_token :: string
  teams :: "Team list"
  unsafe_privileged :: bool
  start_time :: "string option"
  end_time :: "string option"
  max_disk_size :: "string option"
  gameserver_exposed_port :: "string option"
  debug :: bool
  pin_data_added :: bool

text \<open>The attributes of class \<open>g\<close> that \<open>write_compose\<close> reads.\<close>

definition g_container_name :: string where
  "g_container_name = ''oasis_gameserver''"

definition g_config_file :: string where
  "g_config_file = ''config.json''"

section \<open>The host process\<close>

text \<open>
  What \<open>write_compose\<close> reads beside its argument: \<open>sys.platform\<close>,
  \<open>platform.uname().release\<close>, \<open>os.getuid()\<close> and \<open>os.getgid()\<close>.
\<close>

record host =
  sys_platform :: string
  uname_release :: string
  getuid :: int
  getgid :: int

fun starts_with :: "string \<Rightarrow> string \<Rightarrow> bool" where
  "starts_with [] s = True"
| "starts_with (c # cs) [] = False"
| "starts_with (c # cs) (d # ds) = (c = d \<and> starts_with cs ds)"

text \<open>\<open>needle in s\<close> for two strings.\<close>

fun py_in :: "string \<Rightarrow> string \<Rightarrow> bool" where
  "py_in needle [] = (needle = [])"
| "py_in needle (c # cs) = (starts_with needle (c # cs) \<or> py_in needle cs)"

definition is_linux :: "host \<Rightarrow> bool" where
  "is_linux h \<longleftrightarrow>
     py_in ''linux'' (sys_platform h) \<and> \<not> py_in ''microsoft-standard'' (uname_release h)"

section \<open>\<open>generate_teams_array\<close>\<close>

text \<open>
  \<open>secrets.token_hex(32)\<close> is random; \<open>tok i\<close> stands for the token drawn in
  iteration \<open>i\<close>.
\<close>

definition new_team :: "(int \<Rightarrow> string) \<Rightarrow> bool \<Rightarrow> int \<Rightarrow> int \<Rightarrow> Team" where
  "new_team tok enable_nop_team start_port i =
     (let team = \<lparr> id_team = i,
                   name = ''Team '' @ str_int i,
                   token = tok i,
                   wireguard_port = start_port + i,
                   nop = (i = 0 \<and> enable_nop_team),
                   image_team = [],
                   pins = [] \<rparr>
      in if i = 0 \<and> enable_nop_team then team\<lparr> name := ''Nop Team'' \<rparr> else team)"

text \<open>The loop \<open>for i in range(stop)\<close>, from counter \<open>i\<close> on, appending to \<open>acc\<close>.\<close>

function teams_loop :: "(int \<Rightarrow> string) \<Rightarrow> bool \<Rightarrow> int \<Rightarrow> int \<Rightarrow> int \<Rightarrow> Team list \<Rightarrow> Team list" where
  "teams_loop tok enable_nop_team start_port stop i acc =
     (if i < stop
      then teams_loop tok enable_nop_team start_port stop (i + 1)
             (acc @ [new_team tok enable_nop_team start_port i])
      else acc)"
  by pat_completeness auto
termination
  by (relation "measure (\<lambda>(tok, e, p, stop, i, acc). nat (stop - i))") auto

declare teams_loop.simps [simp del]

definition generate_teams_array :: "(int \<Rightarrow> string) \<Rightarrow> int \<Rightarrow> bool \<Rightarrow> int \<Rightarrow> Team list" where
  "generate_teams_array tok number_of_teams enable_nop_team start_port =
     teams_loop tok enable_nop_team start_port
       (number_of_teams + (if enable_nop_team then 1 else 0)) 0 []"

section \<open>The topology compiler \<open>write_compose\<close>\<close>

text \<open>The value of the key \<open>router\<close>.\<close>

definition router_service :: "Config \<Rightarrow> yval" where
  "router_service config = YDict (py_dict [
     (''hostname'', YStr ''router''),
     (''dns'', YList [YStr (dns config)]),
     (''build'', YStr ''./router''),
     (''cap_add'', YList [YStr ''NET_ADMIN'', YStr ''SYS_MODULE'', YStr ''SYS_ADMIN'']),
     (''sysctls'', YList [
        YStr ''net.ipv4.ip_forward=1'',
        YStr ''net.ipv4.tcp_timestamps=0'',
        YStr ''net.ipv4.conf.all.rp_filter=1'',
        YStr ''net.ipv6.conf.all.forwarding=0'']),
     (''environment'', YDict (py_dict [
        (''NTEAM'', YInt (int (length (teams config)))),
        (''RATE_NET'', YStr (network_limit_bandwidth config))])),
     (''volumes'', YList [YStr ''unixsk:/unixsk'']),
     (''restart'', YStr ''unless-stopped''),
     (''networks'', YDict (py_dict (
        py_dict (map (\<lambda>team.
          (''vm-team'' @ str_int (id_team team), YDict (py_dict [
             (''priority'', YInt 10),
             (''ipv4_address'', YStr (''10.60.'' @ str_int (id_team team) @ ''.250''))])))
          (teams config))
        @ [(''gameserver'', YDict (py_dict [
             (''priority'', YInt 10),
             (''ipv4_address'', YStr ''10.10.0.250'')])),
           (''externalnet'', YDict (py_dict [
             (''priority'', YInt 1)]))]
        @ py_dict (map (\<lambda>team.
          (''players'' @ str_int (id_team team), YDict (py_dict [
             (''priority'', YInt 10),
             (''ipv4_address'', YStr (''10.80.'' @ str_int (id_team team) @ ''.250''))])))
          (filter (\<lambda>team. \<not> nop team) (teams config))))))])"

text \<open>The value of the key \<open>database\<close>.\<close>

definition database_service :: "Config \<Rightarrow> yval" where
  "database_service config = YDict (py_dict [
     (''hostname'', YStr ''oasis-database''),
     (''dns'', YList [YStr (dns config)]),
     (''image'', YStr ''postgres:17''),
     (''restart'', YStr ''unless-stopped''),
     (''environment'', YDict (py_dict [
        (''POSTGRES_USER'', YStr ''oasis''),
        (''POSTGRES_PASSWORD'', YStr ''oasis''),
        (''POSTGRES_DB'', YStr ''oasis'')])),
     (''volumes'', YList [YStr ''oasis-postgres-db:/var/lib/postgresql/data'']),
     (''networks'', YDict (py_dict [
        (''internalnet'', YStr [])]))])"

text \<open>The value of the key \<open>gameserver\<close> under \<open>services\<close>.\<close>

definition gameserver_service :: "Config \<Rightarrow> yval" where
  "gameserver_service config = YDict (py_dict (
     [(''hostname'', YStr ''gameserver''),
      (''dns'', YList [YStr (dns config)]),
      (''build'', YStr ''./game_server''),
      (''restart'', YStr ''unless-stopped''),
      (''container_name'', YStr g_container_name),
      (''cap_add'', YList [YStr ''NET_ADMIN''])]
     @ (case gameserver_exposed_port config of
          Some port \<Rightarrow> py_dict [(''ports'', YList [YStr (port @ '':80'')])]
        | None \<Rightarrow> py_dict [])
     @ [(''depends_on'', YList (
          [YStr ''router'', YStr ''database'']
          @ map (\<lambda>team. YStr (''team'' @ str_int (id_team team))) (teams config))),
        (''networks'', YDict (py_dict [
          (''internalnet'', YDict (py_dict [
             (''priority'', YInt 1)])),
          (''gameserver'', YDict (py_dict [
             (''priority'', YInt 10),
             (''ipv4_address'', YStr ''10.10.0.1'')]))])),
        (''volumes'', YList [
          YStr ''./game_server/checkers:/app/checkers:z'',
          YStr ''unixsk:/unixsk'',
          YStr (''./'' @ g_config_file @ '':/app/'' @ g_config_file @ '':z'')])]))"

text \<open>
  The value of the key \<open>team{team.id}\<close>. \<open>if config.max_disk_size\<close> is false for
  \<open>None\<close> and for the empty string.
\<close>

definition team_service :: "Config \<Rightarrow> Team \<Rightarrow> yval" where
  "team_service config team = YDict (py_dict (
     [(''hostname'', YStr (''team'' @ str_int (id_team team))),
      (''dns'', YList [YStr (dns config)]),
      (''build'', YDict (py_dict [
         (''context'', YStr ''./vm''),
         (''args'', YDict (py_dict [
            (''TOKEN'', YStr (token team))]))]))]
     @ (case max_disk_size config of
          Some sz \<Rightarrow>
            if sz \<noteq> []
            then py_dict [(''storage_opt'', YDict (py_dict [(''size'', YStr sz)]))]
            else py_dict []
        | None \<Rightarrow> py_dict [])
     @ (if unsafe_privileged config
        then py_dict [(''privileged'', YStr ''true'')]
        else py_dict [(''runtime'', YStr ''sysbox-runc'')])
     @ [(''restart'', YStr ''unless-stopped''),
        (''networks'', YDict (py_dict [
          (''vm-team'' @ str_int (id_team team), YDict (py_dict [
             (''ipv4_address'', YStr (''10.60.'' @ str_int (id_team team) @ ''.1''))]))])),
        (''deploy'', YDict (py_dict [
          (''resources'', YDict (py_dict [
             (''limits'', YDict (py_dict [
                (''cpus'', YStr ([CHR 0x22] @ max_vm_cpus config @ [CHR 0x22])),
                (''memory'', YStr (max_vm_mem config))]))]))]))]))"

text \<open>The value of the key \<open>wireguard{team.id}\<close>.\<close>

definition wireguard_service :: "host \<Rightarrow> Config \<Rightarrow> Team \<Rightarrow> yval" where
  "wireguard_service h config team = YDict (py_dict [
     (''hostname'', YStr (''wireguard'' @ str_int (id_team team))),
     (''dns'', YList [YStr (dns config)]),
     (''build'', YStr ''./wireguard''),
     (''restart'', YStr ''unless-stopped''),
     (''cap_add'', YList [YStr ''NET_ADMIN'', YStr ''SYS_MODULE'']),
     (''sysctls'', YList [
        YStr ''net.ipv4.ip_forward=1'',
        YStr ''net.ipv4.conf.all.src_valid_mark=1'']),
     (''volumes'', YList [
        YStr (''./wireguard/conf'' @ str_int (id_team team) @ '':/config:z'')]),
     (''networks'', YDict (py_dict [
        (''players'' @ str_int (id_team team), YDict (py_dict [
           (''ipv4_address'', YStr (''10.80.'' @ str_int (id_team team) @ ''.128''))]))])),
     (''ports'', YList [
        YStr (str_int (wireguard_start_port config + id_team team) @ '':51820/udp'')]),
     (''environment'', YDict (py_dict [
        (''PUID'', YInt (if is_linux h then getuid h else 0)),
        (''PGID'', YInt (if is_linux h then getgid h else 0)),
        (''TZ'', YStr ''Etc/UTC''),
        (''PEERS'', YInt (wireguard_profiles config)),
        (''PEERDNS'', YStr (dns config)),
        (''ALLOWEDIPS'', YStr ''10.10.0.0/16, 10.60.0.0/16, 10.80.0.0/16''),
        (''SERVERURL'', YStr (server_addr config)),
        (''SERVERPORT'', YInt (wireguard_start_port config + id_team team)),
        (''INTERNAL_SUBNET'', YStr (''10.80.'' @ str_int (id_team team) @ ''.0/24''))]))])"

text \<open>The value of the key \<open>services\<close>.\<close>

definition compose_services :: "host \<Rightarrow> Config \<Rightarrow> (string \<times> yval) list" where
  "compose_services h config = py_dict (
     [(''router'', router_service config),
      (''database'', database_service config),
      (''gameserver'', gameserver_service config)]
     @ py_dict (map (\<lambda>team. (''team'' @ str_int (id_team team), team_service config team))
         (teams config))
     @ py_dict (map (\<lambda>team. (''wireguard'' @ str_int (id_team team), wireguard_service h config team))
         (filter (\<lambda>team. \<not> nop team) (teams config))))"

text \<open>The value of the key \<open>networks\<close> at the top level.\<close>

definition compose_networks :: "Config \<Rightarrow> (string \<times> yval) list" where
  "compose_networks config = py_dict (
     [(''externalnet'', YStr []),
      (''internalnet'', YStr []),
      (''gameserver'', YDict (py_dict [
         (''internal'', YStr ''true''),
         (''driver'', YStr ''macvlan''),
         (''ipam'', YDict (py_dict [
            (''driver'', YStr ''default''),
            (''config'', YList [YDict (py_dict [
               (''subnet'', YStr ''10.10.0.0/24''),
               (''gateway'', YStr ''10.10.0.254'')])])]))]))]
     @ py_dict (map (\<lambda>team.
         (''vm-team'' @ str_int (id_team team), YDict (py_dict [
            (''internal'', YStr ''true''),
            (''driver'', YStr ''macvlan''),
            (''ipam'', YDict (py_dict [
               (''driver'', YStr ''default''),
               (''config'', YList [YDict (py_dict [
                  (''subnet'', YStr (''10.60.'' @ str_int (id_team team) @ ''.0/24'')),
                  (''gateway'', YStr (''10.60.'' @ str_int (id_team team) @ ''.254''))])])]))])))
         (teams config))
     @ py_dict (map (\<lambda>team.
         (''players'' @ str_int (id_team team), YDict (py_dict [
            (''driver'', YStr ''bridge''),
            (''ipam'', YDict (py_dict [
               (''driver'', YStr ''default''),
               (''config'', YList [YDict (py_dict [
                  (''subnet'', YStr (''10.80.'' @ str_int (id_team team) @ ''.0/24'')),
                  (''gateway'', YStr (''10.80.'' @ str_int (id_team team) @ ''.254''))])])]))])))
         (filter (\<lambda>team. \<not> nop team) (teams config))))"

text \<open>The dict that \<open>write_compose\<close> hands to \<open>dict_to_yaml\<close>.\<close>

definition compose_dict :: "host \<Rightarrow> Config \<Rightarrow> yval" where
  "compose_dict h config = YDict (py_dict [
     (''services'', YDict (compose_services h config)),
     (''volumes'', YDict (py_dict [
        (''unixsk'', YStr []),
        (''oasis-postgres-db'', YStr [])])),
     (''networks'', YDict (compose_networks config))])"

text \<open>
  \<open>write_compose(config)\<close> for a \<open>Config\<close> argument: the text written to the compose
  file, \<open>dict_to_yaml\<close> called with its default arguments.
\<close>

definition write_compose :: "host \<Rightarrow> Config \<Rightarrow> string" where
  "write_compose h config = dict_to_yaml (compose_dict h config) 4 0 0 None"

section \<open>The range checks of \<open>config_input\<close>\<close>

text \<open>
  A line typed at a prompt, after \<open>strip()\<close>: empty, a text that \<open>int()\<close> parses,
  with its value, or a text on which \<open>int()\<close> raises \<open>ValueError\<close>. Standard input is
  a finite list of lines; \<open>input()\<close> at its end raises \<open>EOFError\<close>.
\<close>

datatype answer = Blank | Number int | Garbage

datatype input_error = ValueError | EOFError

text \<open>
  \<open>abs(int(get_input(prompt, dflt)))\<close> for an optional prompt with an \<open>int\<close>
  default \<open>dflt\<close>: an empty line gives it.
\<close>

fun read_abs_int :: "int \<Rightarrow> answer list \<Rightarrow> input_error + (int \<times> answer list)" where
  "read_abs_int dflt [] = Inl EOFError"
| "read_abs_int dflt (Blank # rest) = Inr (\<bar>dflt\<bar>, rest)"
| "read_abs_int dflt (Number v # rest) = Inr (\<bar>v\<bar>, rest)"
| "read_abs_int dflt (Garbage # rest) = Inl ValueError"

text \<open>
  \<open>while args.number_of_teams < 0 or args.number_of_teams >= 250:\<close> asking again,
  with \<open>n\<close> the value read last.
\<close>

fun number_of_teams_loop :: "int \<Rightarrow> int \<Rightarrow> answer list \<Rightarrow> input_error + (int \<times> answer list)" where
  "number_of_teams_loop dflt n [] =
     (if n < 0 \<or> n \<ge> 250 then Inl EOFError else Inr (n, []))"
| "number_of_teams_loop dflt n (a # rest) =
     (if n < 0 \<or> n \<ge> 250
      then (case read_abs_int dflt (a # rest) of
              Inl e \<Rightarrow> Inl e
            | Inr (n', _) \<Rightarrow> number_of_teams_loop dflt n' rest)
      else Inr (n, a # rest))"

definition ask_number_of_teams :: "int \<Rightarrow> answer list \<Rightarrow> input_error + (int \<times> answer list)" where
  "ask_number_of_teams dflt inp =
     (case read_abs_int dflt inp of
        Inl e \<Rightarrow> Inl e
      | Inr (n, rest) \<Rightarrow> number_of_teams_loop dflt n rest)"

text \<open>
  \<open>while args.wireguard_start_port < 1 or
  args.wireguard_start_port > 65535-args.number_of_teams:\<close> asking again.
\<close>

fun start_port_loop :: "int \<Rightarrow> int \<Rightarrow> int \<Rightarrow> answer list \<Rightarrow> input_error + (int \<times> answer list)" where
  "start_port_loop number_of_teams dflt p [] =
     (if p < 1 \<or> p > 65535 - number_of_teams then Inl EOFError else Inr (p, []))"
| "start_port_loop number_of_teams dflt p (a # rest) =
     (if p < 1 \<or> p > 65535 - number_of_teams
      then (case read_abs_int dflt (a # rest) of
              Inl e \<Rightarrow> Inl e
            | Inr (p', _) \<Rightarrow> start_port_loop number_of_teams dflt p' rest)
      else Inr (p, a # rest))"

definition ask_start_port :: "int \<Rightarrow> int \<Rightarrow> answer list \<Rightarrow> input_error + (int \<times> answer list)" where
  "ask_start_port number_of_teams dflt inp =
     (case read_abs_int dflt inp of
        Inl e \<Rightarrow> Inl e
      | Inr (p, rest) \<Rightarrow> start_port_loop number_of_teams dflt p rest)"

section \<open>Reading a topology\<close>

text \<open>\<open>d.get(k)\<close> on a dict; \<open>None\<close> on any other value.\<close>

fun yget :: "yval \<Rightarrow> string \<Rightarrow> yval option" where
  "yget (YDict kvs) k = map_of kvs k"
| "yget _ k = None"

text \<open>Following a path of keys from the root.\<close>

fun ypath :: "yval \<Rightarrow> string list \<Rightarrow> yval option" where
  "ypath v [] = Some v"
| "ypath v (k # ks) = (case yget v k of None \<Rightarrow> None | Some w \<Rightarrow> ypath w ks)"

text \<open>\<open>list(d.keys())\<close>\<close>

fun ykeys :: "yval \<Rightarrow> string list" where
  "ykeys (YDict kvs) = map fst kvs"
| "ykeys _ = []"

text \<open>The keys of the dict found at a path; none when the path leads nowhere.\<close>

definition keys_at :: "yval \<Rightarrow> string list \<Rightarrow> string list" where
  "keys_at v ks = (case ypath v ks of None \<Rightarrow> [] | Some d \<Rightarrow> ykeys d)"

text \<open>The names in a service's \<open>depends_on\<close> list.\<close>

definition service_deps :: "yval \<Rightarrow> string list" where
  "service_deps svc =
     (case yget svc ''depends_on'' of Some (YList xs) \<Rightarrow> map fmt xs | _ \<Rightarrow> [])"

text \<open>The names of the networks a service is attached to.\<close>

definition service_networks :: "yval \<Rightarrow> string list" where
  "service_networks svc = keys_at svc [''networks'']"

text \<open>The \<open>SERVERPORT\<close> binding of a service, when it has one.\<close>

definition service_port :: "yval \<Rightarrow> int option" where
  "service_port svc =
     (case ypath svc [''environment'', ''SERVERPORT''] of Some (YInt p) \<Rightarrow> Some p | _ \<Rightarrow> None)"

text \<open>The items of the \<open>services\<close> dict of a topology.\<close>

definition topology_services :: "yval \<Rightarrow> (string \<times> yval) list" where
  "topology_services topology =
     (case yget topology ''services'' of Some (YDict svcs) \<Rightarrow> svcs | _ \<Rightarrow> [])"

text \<open>The \<open>SERVERPORT\<close> bindings of all services of a topology, in service order.\<close>

definition allocated_ports :: "yval \<Rightarrow> int list" where
  "allocated_ports topology =
     List.map_filter (\<lambda>(k, svc). service_port svc) (topology_services topology)"

section \<open>Example inputs\<close>

definition example_config :: "int \<Rightarrow> Team list \<Rightarrow> Config" where
  "example_config start ts =
     \<lparr> wireguard_start_port = start, wireguard_profiles = 30, server_addr = ''ctf.example'',
       dns = ''1.1.1.1'', tick_time = 120, flag_expire_ticks = 5,
       initial_service_score = 5000, max_flags_per_request = 3000,
       network_limit_bandwidth = ''20mbit'', max_vm_cpus = ''1'', max_vm_mem = ''2G'',
       gameserver_token = ''secret'', teams = ts, unsafe_privileged = False,
       start_time = None, end_time = None, max_disk_size = None,
       gameserver_exposed_port = None, debug = False, pin_data_added = False \<rparr>"

definition example_host :: "string \<Rightarrow> int \<Rightarrow> host" where
  "example_host platform u =
     \<lparr> sys_platform = platform, uname_release = ''6.8.0'', getuid = u, getgid = u \<rparr>"

definition example_tok :: "int \<Rightarrow> string" where
  "example_tok i = ''token'' @ str_int i"

text \<open>A team entry as a hand-edited \<open>config.json\<close> may hold it.\<close>

definition example_team :: "int \<Rightarrow> bool \<Rightarrow> Team" where
  "example_team i is_nop =
     \<lparr> id_team = i, name = ''Team'', token = ''t'', wireguard_port = 51000 + i, nop = is_nop,
       image_team = [], pins = [] \<rparr>"

section \<open>Facts about number formatting\<close>

lemma of_char_digit_char: "d < 10 \<Longrightarrow> (of_char (digit_char d) :: nat) = 48 + d"
proof -
  assume "d < 10"
  then have "d \<in> {0,1,2,3,4,5,6,7,8,9}" by auto
  then show ?thesis by (auto simp: digit_char_def)
qed

lemma digit_char_inj:
  assumes "a < 10" "b < 10" "digit_char a = digit_char b"
  shows "a = b"
proof -
  have "(of_char (digit_char a) :: nat) = of_char (digit_char b)"
    using assms(3) by simp
  then show ?thesis
    using assms(1,2) by (simp add: of_char_digit_char)
qed

lemma digit_char_not_minus: "d < 10 \<Longrightarrow> digit_char d \<noteq> CHR ''-''"
proof
  assume d: "d < 10" and "digit_char d = CHR ''-''"
  then have "(of_char (digit_char d) :: nat) = of_char CHR ''-''" by simp
  with d show False by (simp add: of_char_digit_char)
qed

lemma str_nat_small: "n < 10 \<Longrightarrow> str_nat n = [digit_char n]"
  by (subst str_nat.simps) simp

lemma str_nat_big: "\<not> n < 10 \<Longrightarrow> str_nat n = str_nat (n div 10) @ [digit_char (n mod 10)]"
  by (subst str_nat.simps) simp

lemma str_nat_nonempty: "str_nat n \<noteq> []"
  by (cases "n < 10") (simp_all add: str_nat_small str_nat_big)

lemma hd_str_nat_not_minus: "hd (str_nat n) \<noteq> CHR ''-''"
proof (induction n rule: str_nat.induct)
  case (1 n)
  show ?case
  proof (cases "n < 10")
    case True
    then show ?thesis by (simp add: str_nat_small digit_char_not_minus)
  next
    case False
    with 1 show ?thesis by (simp add: str_nat_big str_nat_nonempty)
  qed
qed

lemma str_nat_inj: "str_nat a = str_nat b \<Longrightarrow> a = b"
proof (induction a arbitrary: b rule: str_nat.induct)
  case (1 a)
  show ?case
  proof (cases "a < 10")
    case a: True
    show ?thesis
    proof (cases "b < 10")
      case True
      with a 1(2) show ?thesis by (simp add: str_nat_small digit_char_inj)
    next
      case False
      with a 1(2) show ?thesis
        by (simp add: str_nat_small str_nat_big str_nat_nonempty [THEN not_sym])
    qed
  next
    case a: False
    show ?thesis
    proof (cases "b < 10")
      case True
      with a 1(2) show ?thesis by (simp add: str_nat_small str_nat_big str_nat_nonempty)
    next
      case False
      with a 1(2) have q: "str_nat (a div 10) = str_nat (b div 10)"
        and r: "digit_char (a mod 10) = digit_char (b mod 10)"
        by (simp_all add: str_nat_big)
      from 1(1) [OF a q] have "a div 10 = b div 10" .
      moreover from r have "a mod 10 = b mod 10" by (auto intro: digit_char_inj)
      ultimately show ?thesis by (metis div_mult_mod_eq)
    qed
  qed
qed

lemma str_int_inj: "str_int a = str_int b \<Longrightarrow> a = b"
proof -
  assume eq: "str_int a = str_int b"
  have neg: "hd (CHR ''-'' # xs) = CHR ''-''" for xs :: string by simp
  show ?thesis
  proof (cases "a < 0"; cases "b < 0")
    assume "a < 0" "b < 0"
    with eq have "nat (- a) = nat (- b)" by (simp add: str_int_def str_nat_inj)
    with \<open>a < 0\<close> \<open>b < 0\<close> show ?thesis by simp
  next
    assume "a < 0" "\<not> b < 0"
    with eq hd_str_nat_not_minus [of "nat b"] show ?thesis
      by (auto simp: str_int_def dest: arg_cong [where f = hd])
  next
    assume "\<not> a < 0" "b < 0"
    with eq hd_str_nat_not_minus [of "nat a"] show ?thesis
      by (auto simp: str_int_def dest: arg_cong [where f = hd])
  next
    assume "\<not> a < 0" "\<not> b < 0"
    with eq have "nat a = nat b" by (simp add: str_int_def str_nat_inj)
    with \<open>\<not> a < 0\<close> \<open>\<not> b < 0\<close> show ?thesis by simp
  qed
qed

lemma str_int_eq_iff [simp]: "str_int a = str_int b \<longleftrightarrow> a = b"
  by (auto dest: str_int_inj)



section \<open>Properties of \<open>generate_teams_array\<close>\<close>

lemma teams_loop_map:
  "teams_loop tok e p stop i acc = acc @ map (new_team tok e p) [i..stop - 1]"
proof (induction tok e p stop i acc rule: teams_loop.induct)
  case (1 tok e p stop i acc)
  show ?case
  proof (cases "i < stop")
    case True
    have "[i..stop - 1] = i # [i + 1..stop - 1]"
      using True by (simp add: upto_rec1)
    with 1 True show ?thesis
      by (subst teams_loop.simps) simp
  next
    case False
    then show ?thesis
      by (subst teams_loop.simps) simp
  qed
qed

lemma generate_teams_array_map:
  "generate_teams_array tok n e p = map (new_team tok e p) [0..n + (if e then 1 else 0) - 1]"
  by (simp add: generate_teams_array_def teams_loop_map)

lemma new_team_fields:
  "id_team (new_team tok e p i) = i"
  "wireguard_port (new_team tok e p i) = p + i"
  "nop (new_team tok e p i) = (i = 0 \<and> e)"
  "token (new_team tok e p i) = tok i"
  by (simp_all add: new_team_def Let_def)

lemma map_int_upt: "map int [0..<nat m] = [0..m - 1]"
proof (induction "nat m" arbitrary: m)
  case 0
  then show ?case by simp
next
  case (Suc k)
  then have m: "0 < m" and k: "k = nat (m - 1)" by auto
  have "[0..m - 1] = [0..m - 1 - 1] @ [m - 1]"
    using m by (simp add: upto_rec2)
  moreover have "[0..<nat m] = [0..<nat (m - 1)] @ [nat (m - 1)]"
    using m Suc.hyps(2) k by (metis upt_Suc_append zero_le)
  ultimately show ?case
    using Suc.hyps(1) [OF k] m by simp
qed

text \<open>
  C10. For \<open>n \<ge> 0\<close>, \<open>generate_teams_array(n, enable_nop, p)\<close> returns \<open>n + 1\<close> teams
  when \<open>enable_nop\<close> is true and \<open>n\<close> teams otherwise; the ids are \<open>0 .. len - 1\<close> in
  array order, every team's \<open>wireguard_port\<close> is \<open>p + id\<close>, and the nop flag is set on
  team 0 alone when \<open>enable_nop\<close> is true and on no team otherwise.
\<close>

theorem generate_teams_array_spec:
  assumes "0 \<le> n"
  shows "length (generate_teams_array tok n e p) = nat n + (if e then 1 else 0)
    \<and> map id_team (generate_teams_array tok n e p)
        = map int [0..<length (generate_teams_array tok n e p)]
    \<and> (\<forall>t \<in> set (generate_teams_array tok n e p). wireguard_port t = p + id_team t)
    \<and> (\<forall>t \<in> set (generate_teams_array tok n e p). nop t \<longleftrightarrow> (e \<and> id_team t = 0))"
proof -
  let ?m = "n + (if e then 1 else 0)"
  have len: "length (generate_teams_array tok n e p) = nat ?m"
    by (simp add: generate_teams_array_map)
  have ids: "map id_team (generate_teams_array tok n e p) = [0..?m - 1]"
    by (simp add: generate_teams_array_map comp_def new_team_fields)
  show ?thesis
  proof (intro conjI)
    show "length (generate_teams_array tok n e p) = nat n + (if e then 1 else 0)"
      using assms len by (simp add: nat_add_distrib)
    show "map id_team (generate_teams_array tok n e p)
        = map int [0..<length (generate_teams_array tok n e p)]"
      unfolding len ids by (rule map_int_upt [symmetric])
    show "\<forall>t \<in> set (generate_teams_array tok n e p). wireguard_port t = p + id_team t"
      by (auto simp: generate_teams_array_map new_team_fields)
    show "\<forall>t \<in> set (generate_teams_array tok n e p). nop t \<longleftrightarrow> (e \<and> id_team t = 0)"
      by (auto simp: generate_teams_array_map new_team_fields)
  qed
qed

theorem generate_teams_array_spec_witness:
  "(0::int) \<le> 2
   \<and> length (generate_teams_array example_tok 2 True 51000) = 3
   \<and> map id_team (generate_teams_array example_tok 2 True 51000) = [0, 1, 2]
   \<and> map wireguard_port (generate_teams_array example_tok 2 True 51000) = [51000, 51001, 51002]
   \<and> map nop (generate_teams_array example_tok 2 True 51000) = [True, False, False]"
proof -
  let ?G = "generate_teams_array example_tok 2 True 51000"
  note spec = generate_teams_array_spec [of 2 example_tok True 51000]
  have len: "length ?G = 3"
    using spec by simp
  have ids: "map id_team ?G = [0, 1, 2]"
    using spec len by (simp add: eval_nat_numeral)
  have "map wireguard_port ?G = map (\<lambda>t. 51000 + id_team t) ?G"
    using spec by simp
  also have "\<dots> = map (\<lambda>i. 51000 + i) (map id_team ?G)"
    by (simp add: comp_def)
  finally have ports: "map wireguard_port ?G = [51000, 51001, 51002]"
    by (simp add: ids)
  have "map nop ?G = map (\<lambda>t. id_team t = 0) ?G"
    using spec by simp
  also have "\<dots> = map (\<lambda>i. i = 0) (map id_team ?G)"
    by (simp add: comp_def)
  finally have nops: "map nop ?G = [True, False, False]"
    by (simp add: ids)
  from len ids ports nops show ?thesis by simp
qed

section \<open>Dict construction\<close>

lemma map_of_dict_set: "map_of (dict_set d k v) = (map_of d)(k \<mapsto> v)"
  by (induction d) (auto simp: fun_eq_iff)

lemma map_fst_dict_set:
  "map fst (dict_set d k v) = (if k \<in> set (map fst d) then map fst d else map fst d @ [k])"
  by (induction d) (force simp: image_iff)+

lemma keys_dict_set: "fst ` set (dict_set d k v) = insert k (fst ` set d)"
proof -
  have "set (map fst (dict_set d k v)) = insert k (set (map fst d))"
    unfolding map_fst_dict_set by auto
  then show ?thesis by simp
qed

lemma distinct_dict_set: "distinct (map fst d) \<Longrightarrow> distinct (map fst (dict_set d k v))"
  by (induction d) (auto simp: keys_dict_set)

lemma set_dict_set: "set (dict_set d k v) \<subseteq> insert (k, v) (set d)"
  by (induction d) (auto split: if_splits)

lemma dict_set_fresh: "k \<notin> fst ` set d \<Longrightarrow> dict_set d k v = d @ [(k, v)]"
  by (induction d) auto

lemma map_of_foldl_dict_set:
  "map_of (foldl (\<lambda>d (k, v). dict_set d k v) d items) = map_of d ++ map_of (rev items)"
proof (induction items arbitrary: d)
  case Nil
  show ?case by simp
next
  case (Cons kv items)
  obtain k v where kv: "kv = (k, v)" by (cases kv)
  have step: "(map_of d)(k \<mapsto> v) ++ map_of (rev items) = map_of d ++ map_of (rev ((k, v) # items))"
    by (rule ext) (simp add: map_add_def split: option.splits)
  show ?case
    by (simp only: kv foldl_Cons prod.case Cons.IH map_of_dict_set step)
qed

lemma keys_foldl_dict_set:
  "fst ` set (foldl (\<lambda>d (k, v). dict_set d k v) d items) = fst ` set d \<union> fst ` set items"
proof (induction items arbitrary: d)
  case Nil
  show ?case by simp
next
  case (Cons kv items)
  obtain k v where kv: "kv = (k, v)" by (cases kv)
  have "fst ` set (foldl (\<lambda>d (k, v). dict_set d k v) (dict_set d k v) items)
      = insert k (fst ` set d) \<union> fst ` set items"
    by (simp add: Cons.IH keys_dict_set)
  then show ?case
    by (simp add: kv)
qed

lemma distinct_foldl_dict_set:
  "distinct (map fst d) \<Longrightarrow> distinct (map fst (foldl (\<lambda>d (k, v). dict_set d k v) d items))"
  by (induction items arbitrary: d) (auto simp: distinct_dict_set split: prod.splits)

lemma set_foldl_dict_set:
  "set (foldl (\<lambda>d (k, v). dict_set d k v) d items) \<subseteq> set d \<union> set items"
proof (induction items arbitrary: d)
  case Nil
  show ?case by simp
next
  case (Cons kv items)
  obtain k v where kv: "kv = (k, v)" by (cases kv)
  from Cons [of "dict_set d k v"] set_dict_set [of d k v] show ?case
    by (auto simp: kv)
qed

lemma foldl_dict_set_distinct:
  "distinct (map fst (d @ items)) \<Longrightarrow> foldl (\<lambda>d (k, v). dict_set d k v) d items = d @ items"
proof (induction items arbitrary: d)
  case Nil
  show ?case by simp
next
  case (Cons kv items)
  obtain k v where kv: "kv = (k, v)" by (cases kv)
  from Cons.prems have fresh: "k \<notin> fst ` set d" and "distinct (map fst ((d @ [(k, v)]) @ items))"
    by (auto simp: kv)
  with Cons.IH [of "d @ [(k, v)]"] show ?case
    by (simp add: kv dict_set_fresh)
qed

lemma map_of_py_dict: "map_of (py_dict items) = map_of (rev items)"
  by (simp add: py_dict_def map_of_foldl_dict_set)

lemma keys_py_dict: "fst ` set (py_dict items) = fst ` set items"
  by (simp add: py_dict_def keys_foldl_dict_set)

lemma distinct_py_dict: "distinct (map fst (py_dict items))"
  by (simp add: py_dict_def distinct_foldl_dict_set)

lemma set_py_dict: "set (py_dict items) \<subseteq> set items"
  using set_foldl_dict_set [of "[]" items] by (simp add: py_dict_def)

lemma py_dict_distinct: "distinct (map fst items) \<Longrightarrow> py_dict items = items"
  using foldl_dict_set_distinct [of "[]" items] by (simp add: py_dict_def)

lemma py_dict_idem: "py_dict (py_dict items) = py_dict items"
  by (rule py_dict_distinct) (rule distinct_py_dict)

lemma map_of_py_dict_append:
  "map_of (py_dict (xs @ ys)) k =
     (case map_of (py_dict ys) k of None \<Rightarrow> map_of (py_dict xs) k | Some v \<Rightarrow> Some v)"
  by (simp add: map_of_py_dict map_add_def split: option.splits)

lemma map_of_py_dict_None: "k \<notin> fst ` set items \<Longrightarrow> map_of (py_dict items) k = None"
  by (simp add: map_of_eq_None_iff keys_py_dict)

lemma map_of_py_dict_SomeD: "map_of (py_dict items) k = Some v \<Longrightarrow> (k, v) \<in> set items"
  using set_py_dict map_of_SomeD by fastforce


lemma py_dict_literal:
  "py_dict [] = []"
  "py_dict [(a, x)] = [(a, x)]"
  by (simp_all add: py_dict_def)

lemma map_of_py_dict_Cons:
  "map_of (py_dict ((a, x) # rest)) k =
     (case map_of (py_dict rest) k of None \<Rightarrow> (if k = a then Some x else None) | Some v \<Rightarrow> Some v)"
  by (simp add: map_of_py_dict map_add_def split: option.splits)

lemma map_of_py_dict_Nil: "map_of (py_dict []) k = None"
  by (simp add: py_dict_def)

lemma map_of_py_dict_map_None:
  "\<forall>t \<in> set ts. f t \<noteq> k \<Longrightarrow> map_of (py_dict (map (\<lambda>t. (f t, g t)) ts)) k = None"
  by (rule map_of_py_dict_None) auto

lemma map_of_py_dict_map_ex:
  assumes "t \<in> set ts"
  shows "\<exists>u \<in> set ts. f u = f t \<and> map_of (py_dict (map (\<lambda>t. (f t, g t)) ts)) (f t) = Some (g u)"
proof -
  have "f t \<in> fst ` set (py_dict (map (\<lambda>t. (f t, g t)) ts))"
    using assms by (force simp: keys_py_dict)
  then obtain w where w: "map_of (py_dict (map (\<lambda>t. (f t, g t)) ts)) (f t) = Some w"
    by (metis map_of_eq_None_iff not_Some_eq)
  then have "(f t, w) \<in> set (map (\<lambda>t. (f t, g t)) ts)"
    by (rule map_of_py_dict_SomeD)
  then obtain u where "u \<in> set ts" "f u = f t" "g u = w" by auto
  with w show ?thesis by auto
qed

section \<open>The parts of the compiled topology\<close>

lemma ypath_services:
  "ypath (compose_dict h c) (''services'' # ks) = ypath (YDict (compose_services h c)) ks"
  by (simp add: compose_dict_def map_of_py_dict)

lemma ypath_networks:
  "ypath (compose_dict h c) (''networks'' # ks) = ypath (YDict (compose_networks c)) ks"
  by (simp add: compose_dict_def map_of_py_dict)

lemma keys_at_services: "keys_at (compose_dict h c) [''services''] = map fst (compose_services h c)"
  by (simp only: keys_at_def ypath_services ypath.simps(1) option.case ykeys.simps)

lemma keys_at_networks: "keys_at (compose_dict h c) [''networks''] = map fst (compose_networks c)"
  by (simp only: keys_at_def ypath_networks ypath.simps(1) option.case ykeys.simps)

lemmas lookup_simps = map_of_py_dict_Cons map_of_py_dict_Nil map_of_py_dict_append
  py_dict_idem map_of_py_dict_map_None

lemma services_fixed:
  "map_of (compose_services h c) ''router'' = Some (router_service c)"
  "map_of (compose_services h c) ''database'' = Some (database_service c)"
  "map_of (compose_services h c) ''gameserver'' = Some (gameserver_service c)"
  by (simp_all add: compose_services_def lookup_simps)


lemma services_wireguard:
  assumes "t \<in> set (teams c)" "\<not> nop t"
  shows "\<exists>u \<in> set (teams c). id_team u = id_team t \<and> \<not> nop u
    \<and> map_of (compose_services h c) (''wireguard'' @ str_int (id_team t))
        = Some (wireguard_service h c u)"
proof -
  from assms have "t \<in> set (filter (\<lambda>t. \<not> nop t) (teams c))" by simp
  from map_of_py_dict_map_ex [OF this, of "\<lambda>t. ''wireguard'' @ str_int (id_team t)"
      "wireguard_service h c"]
  obtain u where "u \<in> set (teams c)" "\<not> nop u" "id_team u = id_team t"
    "map_of (py_dict (map (\<lambda>t. (''wireguard'' @ str_int (id_team t), wireguard_service h c t))
       (filter (\<lambda>t. \<not> nop t) (teams c))))
       (''wireguard'' @ str_int (id_team t)) = Some (wireguard_service h c u)"
    by auto
  then show ?thesis
    by (intro bexI [of _ u]) (simp_all add: compose_services_def lookup_simps)
qed

lemma keys_services:
  "set (map fst (compose_services h c)) =
     {''router'', ''database'', ''gameserver''}
     \<union> (\<lambda>t. ''team'' @ str_int (id_team t)) ` set (teams c)
     \<union> (\<lambda>t. ''wireguard'' @ str_int (id_team t)) ` {t \<in> set (teams c). \<not> nop t}"
  by (auto simp: compose_services_def keys_py_dict image_Un image_image)

lemma set_services:
  "set (compose_services h c) \<subseteq>
     {(''router'', router_service c), (''database'', database_service c),
      (''gameserver'', gameserver_service c)}
     \<union> (\<lambda>t. (''team'' @ str_int (id_team t), team_service c t)) ` set (teams c)
     \<union> (\<lambda>t. (''wireguard'' @ str_int (id_team t), wireguard_service h c t))
         ` {t \<in> set (teams c). \<not> nop t}"
proof -
  have "set (compose_services h c) \<subseteq>
      {(''router'', router_service c), (''database'', database_service c),
       (''gameserver'', gameserver_service c)}
      \<union> set (py_dict (map (\<lambda>t. (''team'' @ str_int (id_team t), team_service c t)) (teams c)))
      \<union> set (py_dict (map (\<lambda>t. (''wireguard'' @ str_int (id_team t), wireguard_service h c t))
          (filter (\<lambda>t. \<not> nop t) (teams c))))"
    unfolding compose_services_def by (rule order_trans [OF set_py_dict]) auto
  also have "\<dots> \<subseteq>
      {(''router'', router_service c), (''database'', database_service c),
       (''gameserver'', gameserver_service c)}
      \<union> set (map (\<lambda>t. (''team'' @ str_int (id_team t), team_service c t)) (teams c))
      \<union> set (map (\<lambda>t. (''wireguard'' @ str_int (id_team t), wireguard_service h c t))
          (filter (\<lambda>t. \<not> nop t) (teams c)))"
    by (intro Un_mono order_refl set_py_dict)
  finally show ?thesis by auto
qed

lemma py_dict_two: "a \<noteq> b \<Longrightarrow> py_dict [(a, x), (b, y)] = [(a, x), (b, y)]"
  by (simp add: py_dict_distinct)

lemma py_dict_one: "py_dict [(a, x)] = [(a, x)]"
  by (simp add: py_dict_distinct)

section \<open>Networks\<close>




lemma keys_networks:
  "set (map fst (compose_networks c)) =
     {''externalnet'', ''internalnet'', ''gameserver''}
     \<union> (\<lambda>t. ''vm-team'' @ str_int (id_team t)) ` set (teams c)
     \<union> (\<lambda>t. ''players'' @ str_int (id_team t)) ` {t \<in> set (teams c). \<not> nop t}"
  by (auto simp: compose_networks_def keys_py_dict image_Un image_image)


lemma distinct_services: "distinct (map fst (compose_services h c))"
  by (simp add: compose_services_def distinct_py_dict)

section \<open>The router\<close>

lemma router_networks_keys:
  "set (service_networks (router_service c)) =
     (\<lambda>t. ''vm-team'' @ str_int (id_team t)) ` set (teams c)
     \<union> {''gameserver'', ''externalnet''}
     \<union> (\<lambda>t. ''players'' @ str_int (id_team t)) ` {t \<in> set (teams c). \<not> nop t}"
  by (auto simp: service_networks_def keys_at_def router_service_def lookup_simps
      keys_py_dict image_Un image_image)




lemma router_environment:
  "ypath (router_service c) [''environment'', ''NTEAM''] = Some (YInt (int (length (teams c))))"
  "ypath (router_service c) [''environment'', ''RATE_NET''] = Some (YStr (network_limit_bandwidth c))"
  by (simp_all add: router_service_def lookup_simps)

section \<open>The other services\<close>

lemma gameserver_depends_on:
  "yget (gameserver_service c) ''depends_on'' =
     Some (YList (YStr ''router'' # YStr ''database''
       # map (\<lambda>t. YStr (''team'' @ str_int (id_team t))) (teams c)))"
  by (cases "gameserver_exposed_port c") (simp_all add: gameserver_service_def lookup_simps)

lemma gameserver_deps:
  "service_deps (gameserver_service c) =
     ''router'' # ''database'' # map (\<lambda>t. ''team'' @ str_int (id_team t)) (teams c)"
  by (simp add: service_deps_def gameserver_depends_on comp_def)

lemma gameserver_networks:
  "service_networks (gameserver_service c) = [''internalnet'', ''gameserver'']"
  by (cases "gameserver_exposed_port c")
    (simp_all add: service_networks_def keys_at_def gameserver_service_def lookup_simps py_dict_two)


lemma database_deps: "service_deps (database_service c) = []"
  by (simp add: service_deps_def database_service_def lookup_simps)

lemma database_networks: "service_networks (database_service c) = [''internalnet'']"
  by (simp add: service_networks_def keys_at_def database_service_def lookup_simps py_dict_one)

lemma router_deps: "service_deps (router_service c) = []"
  by (simp add: service_deps_def router_service_def lookup_simps)

lemma team_deps: "service_deps (team_service c t) = []"
  by (cases "max_disk_size c") (simp_all add: service_deps_def team_service_def lookup_simps)

lemma team_networks:
  "service_networks (team_service c t) = [''vm-team'' @ str_int (id_team t)]"
  by (cases "max_disk_size c")
    (simp_all add: service_networks_def keys_at_def team_service_def lookup_simps py_dict_one)


lemma wireguard_deps: "service_deps (wireguard_service h c t) = []"
  by (simp add: service_deps_def wireguard_service_def lookup_simps)

lemma wireguard_networks:
  "service_networks (wireguard_service h c t) = [''players'' @ str_int (id_team t)]"
  by (simp add: service_networks_def keys_at_def wireguard_service_def lookup_simps py_dict_one)


lemma wireguard_ports:
  "yget (wireguard_service h c t) ''ports'' =
     Some (YList [YStr (str_int (wireguard_start_port c + id_team t) @ '':51820/udp'')])"
  "ypath (wireguard_service h c t) [''environment'', ''SERVERPORT''] =
     Some (YInt (wireguard_start_port c + id_team t))"
  by (simp_all add: wireguard_service_def lookup_simps)

lemma service_port_simps:
  "service_port (router_service c) = None"
  "service_port (database_service c) = None"
  by (simp_all add: service_port_def router_service_def database_service_def lookup_simps)

lemma service_port_wireguard:
  "service_port (wireguard_service h c t) = Some (wireguard_start_port c + id_team t)"
  by (simp only: service_port_def wireguard_ports option.case yval.case)

lemma service_port_gameserver: "service_port (gameserver_service c) = None"
  by (cases "gameserver_exposed_port c")
    (simp_all add: service_port_def gameserver_service_def lookup_simps)

lemma service_port_team: "service_port (team_service c t) = None"
  by (cases "max_disk_size c") (simp_all add: service_port_def team_service_def lookup_simps)

section \<open>The topology as a whole\<close>

lemma topology_services_compose: "topology_services (compose_dict h c) = compose_services h c"
  by (simp add: topology_services_def compose_dict_def lookup_simps)

lemma distinct_keys_of_ids:
  "distinct (map id_team ts) \<Longrightarrow> distinct (map (\<lambda>t. pre @ str_int (id_team t)) ts)"
proof -
  assume "distinct (map id_team ts)"
  then have "distinct (map (\<lambda>i. pre @ str_int i) (map id_team ts))"
    by (simp add: distinct_map inj_on_def)
  then show ?thesis by (simp add: comp_def)
qed

lemma services_explicit:
  assumes "distinct (map id_team (teams c))"
  shows "compose_services h c =
     [(''router'', router_service c), (''database'', database_service c),
      (''gameserver'', gameserver_service c)]
     @ map (\<lambda>t. (''team'' @ str_int (id_team t), team_service c t)) (teams c)
     @ map (\<lambda>t. (''wireguard'' @ str_int (id_team t), wireguard_service h c t))
         (filter (\<lambda>t. \<not> nop t) (teams c))"
proof -
  let ?T = "map (\<lambda>t. (''team'' @ str_int (id_team t), team_service c t)) (teams c)"
  let ?W = "map (\<lambda>t. (''wireguard'' @ str_int (id_team t), wireguard_service h c t))
         (filter (\<lambda>t. \<not> nop t) (teams c))"
  have dT: "distinct (map fst ?T)"
    using distinct_keys_of_ids [OF assms, of "''team''"] by (simp add: comp_def)
  have "distinct (map id_team (filter (\<lambda>t. \<not> nop t) (teams c)))"
    using assms by (simp add: distinct_map_filter)
  then have dW: "distinct (map fst ?W)"
    using distinct_keys_of_ids [of "filter (\<lambda>t. \<not> nop t) (teams c)" "''wireguard''"]
    by (simp add: comp_def)
  have T: "py_dict ?T = ?T" by (rule py_dict_distinct [OF dT])
  have W: "py_dict ?W = ?W" by (rule py_dict_distinct [OF dW])
  have "distinct (map fst ([(''router'', router_service c), (''database'', database_service c),
      (''gameserver'', gameserver_service c)] @ ?T @ ?W))"
    using dT dW by (auto simp: comp_def)
  then show ?thesis
    unfolding compose_services_def T W by (rule py_dict_distinct)
qed

lemma map_filter_append: "List.map_filter f (xs @ ys) = List.map_filter f xs @ List.map_filter f ys"
  by (simp add: List.map_filter_def)

lemma map_filter_map_None: "(\<And>x. f (g x) = None) \<Longrightarrow> List.map_filter f (map g xs) = []"
  by (simp add: List.map_filter_def)

lemma map_filter_map_Some: "(\<And>x. f (g x) = Some (k x)) \<Longrightarrow> List.map_filter f (map g xs) = map k xs"
  by (simp add: List.map_filter_def comp_def)

lemma allocated_ports_explicit:
  assumes "distinct (map id_team (teams c))"
  shows "allocated_ports (compose_dict h c) =
     map (\<lambda>t. wireguard_start_port c + id_team t) (filter (\<lambda>t. \<not> nop t) (teams c))"
proof -
  have 1: "List.map_filter (\<lambda>(k, svc). service_port svc)
      (map (\<lambda>t. (''team'' @ str_int (id_team t), team_service c t)) (teams c)) = []"
    by (rule map_filter_map_None) (simp add: service_port_team)
  have 2: "List.map_filter (\<lambda>(k, svc). service_port svc)
      (map (\<lambda>t. (''wireguard'' @ str_int (id_team t), wireguard_service h c t))
         (filter (\<lambda>t. \<not> nop t) (teams c)))
      = map (\<lambda>t. wireguard_start_port c + id_team t) (filter (\<lambda>t. \<not> nop t) (teams c))"
    by (rule map_filter_map_Some) (simp add: service_port_wireguard)
  have 3: "List.map_filter (\<lambda>(k, svc). service_port svc)
      [(''router'', router_service c), (''database'', database_service c),
       (''gameserver'', gameserver_service c)] = []"
    by (simp add: List.map_filter_def service_port_simps service_port_gameserver)
  show ?thesis
    unfolding allocated_ports_def topology_services_compose services_explicit [OF assms]
      map_filter_append 1 2 3
    by simp
qed

section \<open>Facts about the example inputs\<close>

lemma example_config_sel:
  "teams (example_config s ts) = ts"
  "wireguard_start_port (example_config s ts) = s"
  "network_limit_bandwidth (example_config s ts) = ''20mbit''"
  by (simp_all add: example_config_def)

lemma example_team_sel:
  "id_team (example_team i b) = i"
  "nop (example_team i b) = b"
  by (simp_all add: example_team_def)

lemma str_int_small:
  "str_int 0 = ''0''" "str_int 1 = ''1''" "str_int 2 = ''2''" "str_int 3 = ''3''"
  "str_int 4 = ''4''"
  by (simp_all add: str_int_def str_nat_small digit_char_def)

lemma generate_teams_array_4:
  "generate_teams_array tok 4 False p =
     [new_team tok False p 0, new_team tok False p 1, new_team tok False p 2,
      new_team tok False p 3]"
  by (simp add: generate_teams_array_map upto_rec1)

section \<open>Address plan\<close>




section \<open>VPN ports\<close>

text \<open>
  C3. For every team that is not the nop team, the VPN endpoint service of that team
  publishes the port \<open>wireguard_start_port + team.id\<close>, in its port mapping and in its
  \<open>SERVERPORT\<close> binding; with start port 51000 and four teams, none of them nop, the
  allocated ports are exactly 51000, 51001, 51002 and 51003.
\<close>

theorem vpn_port_allocation:
  "(\<forall>t \<in> set (teams c). \<not> nop t \<longrightarrow>
      ypath (compose_dict h c) [''services'', ''wireguard'' @ str_int (id_team t), ''ports'']
        = Some (YList [YStr (str_int (wireguard_start_port c + id_team t) @ '':51820/udp'')])
      \<and> ypath (compose_dict h c)
          [''services'', ''wireguard'' @ str_int (id_team t), ''environment'', ''SERVERPORT'']
        = Some (YInt (wireguard_start_port c + id_team t)))
   \<and> (wireguard_start_port c = 51000 \<and> teams c = generate_teams_array tok 4 False 51000 \<longrightarrow>
        allocated_ports (compose_dict h c) = [51000, 51001, 51002, 51003])"
proof (intro conjI ballI impI)
  fix t
  assume t: "t \<in> set (teams c)" and active: "\<not> nop t"
  from services_wireguard [OF t active, of h] obtain u where u: "id_team u = id_team t"
    "map_of (compose_services h c) (''wireguard'' @ str_int (id_team t))
       = Some (wireguard_service h c u)"
    by blast
  have svc: "ypath (compose_dict h c)
      (''services'' # (''wireguard'' @ str_int (id_team t)) # ks)
      = ypath (wireguard_service h c u) ks" for ks
    unfolding ypath_services using u(2) by simp
  show "ypath (compose_dict h c) [''services'', ''wireguard'' @ str_int (id_team t), ''ports'']
        = Some (YList [YStr (str_int (wireguard_start_port c + id_team t) @ '':51820/udp'')])"
    unfolding svc using wireguard_ports(1) [of h c u] by (simp add: u(1))
  show "ypath (compose_dict h c)
          [''services'', ''wireguard'' @ str_int (id_team t), ''environment'', ''SERVERPORT'']
        = Some (YInt (wireguard_start_port c + id_team t))"
    unfolding svc using wireguard_ports(2) [of h c u] by (simp only: u(1))
next
  assume four: "wireguard_start_port c = 51000 \<and> teams c = generate_teams_array tok 4 False 51000"
  then have ts: "teams c = [new_team tok False 51000 0, new_team tok False 51000 1,
      new_team tok False 51000 2, new_team tok False 51000 3]"
    by (simp add: generate_teams_array_4)
  have "distinct (map id_team (teams c))"
    by (simp add: ts new_team_fields)
  from allocated_ports_explicit [OF this, of h]
  show "allocated_ports (compose_dict h c) = [51000, 51001, 51002, 51003]"
    using four by (simp add: ts new_team_fields)
qed

theorem vpn_port_allocation_witness:
  "example_team 1 False \<in> set (teams (example_config 51000 [example_team 0 True, example_team 1 False]))
   \<and> \<not> nop (example_team 1 False)
   \<and> ypath (compose_dict (example_host ''linux'' 1000)
         (example_config 51000 [example_team 0 True, example_team 1 False]))
       [''services'', ''wireguard1'', ''ports'']
     = Some (YList [YStr ''51001:51820/udp''])
   \<and> ypath (compose_dict (example_host ''linux'' 1000)
         (example_config 51000 [example_team 0 True, example_team 1 False]))
       [''services'', ''wireguard1'', ''environment'', ''SERVERPORT'']
     = Some (YInt 51001)
   \<and> wireguard_start_port (example_config 51000 (generate_teams_array example_tok 4 False 51000)) = 51000
   \<and> allocated_ports (compose_dict (example_host ''linux'' 1000)
         (example_config 51000 (generate_teams_array example_tok 4 False 51000)))
     = [51000, 51001, 51002, 51003]"
proof -
  have s: "str_int 51001 = ''51001''"
    by (simp add: str_int_def str_nat.simps digit_char_def)
  from vpn_port_allocation [of "example_config 51000 [example_team 0 True, example_team 1 False]"
      "example_host ''linux'' 1000" example_tok]
  have a: "ypath (compose_dict (example_host ''linux'' 1000)
         (example_config 51000 [example_team 0 True, example_team 1 False]))
       [''services'', ''wireguard1'', ''ports'']
     = Some (YList [YStr ''51001:51820/udp''])
   \<and> ypath (compose_dict (example_host ''linux'' 1000)
         (example_config 51000 [example_team 0 True, example_team 1 False]))
       [''services'', ''wireguard1'', ''environment'', ''SERVERPORT'']
     = Some (YInt 51001)"
    by (simp add: example_config_sel example_team_sel str_int_small s del: ypath.simps)
  from vpn_port_allocation [of "example_config 51000 (generate_teams_array example_tok 4 False 51000)"
      "example_host ''linux'' 1000" example_tok]
  have b: "allocated_ports (compose_dict (example_host ''linux'' 1000)
         (example_config 51000 (generate_teams_array example_tok 4 False 51000)))
     = [51000, 51001, 51002, 51003]"
    by (simp add: example_config_sel)
  from a b show ?thesis
    by (simp add: example_config_sel example_team_sel)
qed

section \<open>Dependencies of the gameserver\<close>

lemma ypath_router:
  "ypath (compose_dict h c) (''services'' # ''router'' # ks) = ypath (router_service c) ks"
  unfolding ypath_services by (simp add: services_fixed)

lemma ypath_gameserver:
  "ypath (compose_dict h c) (''services'' # ''gameserver'' # ks) = ypath (gameserver_service c) ks"
  unfolding ypath_services by (simp add: services_fixed)

lemma keys_at_router_networks:
  "keys_at (compose_dict h c) [''services'', ''router'', ''networks'']
     = service_networks (router_service c)"
  by (simp only: keys_at_def service_networks_def ypath_router)

lemma teams_update_sel:
  "teams (c\<lparr>teams := ts\<rparr>) = ts"
  "gameserver_exposed_port (c\<lparr>teams := ts\<rparr>) = gameserver_exposed_port c"
  by simp_all

lemma services_no_teams:
  "compose_services h (c\<lparr>teams := []\<rparr>) =
     [(''router'', router_service (c\<lparr>teams := []\<rparr>)),
      (''database'', database_service (c\<lparr>teams := []\<rparr>)),
      (''gameserver'', gameserver_service (c\<lparr>teams := []\<rparr>))]"
  using services_explicit [of "c\<lparr>teams := []\<rparr>" h] by simp

lemma networks_no_teams:
  "map fst (compose_networks (c\<lparr>teams := []\<rparr>)) = [''externalnet'', ''internalnet'', ''gameserver'']"
  by (simp add: compose_networks_def py_dict_literal py_dict_distinct)

lemma router_networks_no_teams:
  "service_networks (router_service (c\<lparr>teams := []\<rparr>)) = [''gameserver'', ''externalnet'']"
  by (simp add: service_networks_def keys_at_def router_service_def lookup_simps
      py_dict_literal py_dict_distinct)

text \<open>
  C4. The dependency set of the gameserver service is exactly \<open>router\<close>, \<open>database\<close> and
  the VM service of every team, the nop team included, whatever the number of teams; each
  of these VM services is a service of the topology. With no team the services are
  \<open>router\<close>, \<open>database\<close> and \<open>gameserver\<close> alone and no network or attachment is keyed by a
  team.
\<close>

theorem gameserver_dependencies:
  "ypath (compose_dict h c) [''services'', ''gameserver'', ''depends_on'']
     = Some (YList (map YStr
         (''router'' # ''database'' # map (\<lambda>t. ''team'' @ str_int (id_team t)) (teams c))))
   \<and> (\<forall>t \<in> set (teams c).
        ''team'' @ str_int (id_team t) \<in> set (keys_at (compose_dict h c) [''services'']))
   \<and> keys_at (compose_dict h (c\<lparr>teams := []\<rparr>)) [''services'']
       = [''router'', ''database'', ''gameserver'']
   \<and> keys_at (compose_dict h (c\<lparr>teams := []\<rparr>)) [''networks'']
       = [''externalnet'', ''internalnet'', ''gameserver'']
   \<and> keys_at (compose_dict h (c\<lparr>teams := []\<rparr>)) [''services'', ''router'', ''networks'']
       = [''gameserver'', ''externalnet'']
   \<and> ypath (compose_dict h (c\<lparr>teams := []\<rparr>)) [''services'', ''gameserver'', ''depends_on'']
       = Some (YList [YStr ''router'', YStr ''database''])"
proof (intro conjI ballI)
  show "ypath (compose_dict h c) [''services'', ''gameserver'', ''depends_on'']
     = Some (YList (map YStr
         (''router'' # ''database'' # map (\<lambda>t. ''team'' @ str_int (id_team t)) (teams c))))"
    unfolding ypath_gameserver by (simp add: gameserver_depends_on comp_def)
  show "''team'' @ str_int (id_team t) \<in> set (keys_at (compose_dict h c) [''services''])"
    if "t \<in> set (teams c)" for t
    unfolding keys_at_services keys_services using that by blast
  show "keys_at (compose_dict h (c\<lparr>teams := []\<rparr>)) [''services'']
       = [''router'', ''database'', ''gameserver'']"
    unfolding keys_at_services services_no_teams by simp
  show "keys_at (compose_dict h (c\<lparr>teams := []\<rparr>)) [''networks'']
       = [''externalnet'', ''internalnet'', ''gameserver'']"
    unfolding keys_at_networks by (rule networks_no_teams)
  show "keys_at (compose_dict h (c\<lparr>teams := []\<rparr>)) [''services'', ''router'', ''networks'']
       = [''gameserver'', ''externalnet'']"
    unfolding keys_at_router_networks by (rule router_networks_no_teams)
  show "ypath (compose_dict h (c\<lparr>teams := []\<rparr>)) [''services'', ''gameserver'', ''depends_on'']
       = Some (YList [YStr ''router'', YStr ''database''])"
    unfolding ypath_gameserver by (simp add: gameserver_depends_on)
qed

theorem gameserver_dependencies_witness:
  "example_team 0 True \<in> set (teams (example_config 51000 [example_team 0 True, example_team 1 False]))
   \<and> ''team0'' \<in> set (keys_at (compose_dict (example_host ''linux'' 1000)
         (example_config 51000 [example_team 0 True, example_team 1 False])) [''services''])
   \<and> ypath (compose_dict (example_host ''linux'' 1000)
         (example_config 51000 [example_team 0 True, example_team 1 False]))
       [''services'', ''gameserver'', ''depends_on'']
     = Some (YList [YStr ''router'', YStr ''database'', YStr ''team0'', YStr ''team1''])"
proof -
  note th = gameserver_dependencies [of "example_host ''linux'' 1000"
      "example_config 51000 [example_team 0 True, example_team 1 False]"]
  from th have "\<forall>t \<in> set [example_team 0 True, example_team 1 False].
      ''team'' @ str_int (id_team t) \<in> set (keys_at (compose_dict (example_host ''linux'' 1000)
         (example_config 51000 [example_team 0 True, example_team 1 False])) [''services''])"
    by (simp add: example_config_sel del: ypath.simps)
  then have a: "''team0'' \<in> set (keys_at (compose_dict (example_host ''linux'' 1000)
         (example_config 51000 [example_team 0 True, example_team 1 False])) [''services''])"
    by (simp add: example_team_sel str_int_small)
  from th have b: "ypath (compose_dict (example_host ''linux'' 1000)
         (example_config 51000 [example_team 0 True, example_team 1 False]))
       [''services'', ''gameserver'', ''depends_on'']
     = Some (YList [YStr ''router'', YStr ''database'', YStr ''team0'', YStr ''team1''])"
    by (simp add: example_config_sel example_team_sel str_int_small del: ypath.simps)
  from a b show ?thesis by (simp add: example_config_sel)
qed

section \<open>The nop team\<close>

lemma service_of_topology:
  assumes "(k, svc) \<in> set (topology_services (compose_dict h c))"
  shows "svc = router_service c \<or> svc = database_service c \<or> svc = gameserver_service c
    \<or> (\<exists>u \<in> set (teams c). svc = team_service c u)
    \<or> (\<exists>u \<in> set (teams c). \<not> nop u \<and> svc = wireguard_service h c u)"
  using assms set_services [of h c] unfolding topology_services_compose by auto

text \<open>
  C5, as the code has it. The compiler keys every team's entries by \<open>team.id\<close> alone and
  does not check that ids are unique. A nop team whose id no team that is not nop shares
  (so every nop team of a config with unique ids) has no \<open>players{id}\<close> network and no
  \<open>wireguard{id}\<close> service, and no service of the topology, the router included, is
  attached to a \<open>players{id}\<close> network of it; it still has its \<open>vm-team{id}\<close> network,
  its \<open>team{id}\<close> service, and its place in the dependency list of the gameserver.
\<close>

theorem nop_team_excluded:
  assumes "t \<in> set (teams c)" and "nop t"
    and "\<forall>u \<in> set (teams c). id_team u = id_team t \<longrightarrow> nop u"
  shows "''players'' @ str_int (id_team t) \<notin> set (keys_at (compose_dict h c) [''networks''])
    \<and> ''wireguard'' @ str_int (id_team t) \<notin> set (keys_at (compose_dict h c) [''services''])
    \<and> ''players'' @ str_int (id_team t)
        \<notin> set (keys_at (compose_dict h c) [''services'', ''router'', ''networks''])
    \<and> (\<forall>(k, svc) \<in> set (topology_services (compose_dict h c)).
          ''players'' @ str_int (id_team t) \<notin> set (service_networks svc))
    \<and> ''vm-team'' @ str_int (id_team t) \<in> set (keys_at (compose_dict h c) [''networks''])
    \<and> ''team'' @ str_int (id_team t) \<in> set (keys_at (compose_dict h c) [''services''])
    \<and> (\<exists>svc. map_of (topology_services (compose_dict h c)) ''gameserver'' = Some svc
          \<and> ''team'' @ str_int (id_team t) \<in> set (service_deps svc))"
proof -
  have only_nop: "nop u" if "u \<in> set (teams c)" "id_team u = id_team t" for u
    using assms(3) that by blast
  have no_net: "''players'' @ str_int (id_team t) \<notin> set (keys_at (compose_dict h c) [''networks''])"
    unfolding keys_at_networks keys_networks using only_nop by auto
  have no_vpn: "''wireguard'' @ str_int (id_team t) \<notin> set (keys_at (compose_dict h c) [''services''])"
    unfolding keys_at_services keys_services using only_nop by auto
  have no_router: "''players'' @ str_int (id_team t) \<notin> set (service_networks (router_service c))"
    unfolding router_networks_keys using only_nop by auto
  have no_attach: "''players'' @ str_int (id_team t) \<notin> set (service_networks svc)"
    if "(k, svc) \<in> set (topology_services (compose_dict h c))" for k svc
    using service_of_topology [OF that] no_router only_nop
    by (auto simp: database_networks gameserver_networks team_networks wireguard_networks)
  have vm_net: "''vm-team'' @ str_int (id_team t) \<in> set (keys_at (compose_dict h c) [''networks''])"
    unfolding keys_at_networks keys_networks using assms(1) by blast
  have vm_svc: "''team'' @ str_int (id_team t) \<in> set (keys_at (compose_dict h c) [''services''])"
    unfolding keys_at_services keys_services using assms(1) by blast
  have dep: "\<exists>svc. map_of (topology_services (compose_dict h c)) ''gameserver'' = Some svc
          \<and> ''team'' @ str_int (id_team t) \<in> set (service_deps svc)"
    unfolding topology_services_compose using assms(1)
    by (auto simp: services_fixed gameserver_deps)
  from no_net no_vpn no_router no_attach vm_net vm_svc dep show ?thesis
    unfolding keys_at_router_networks by blast
qed

theorem nop_team_excluded_witness:
  "example_team 0 True \<in> set (teams (example_config 51000 [example_team 0 True, example_team 1 False]))
   \<and> nop (example_team 0 True)
   \<and> id_team (example_team 1 False) \<noteq> id_team (example_team 0 True)
   \<and> ''players0'' \<notin> set (keys_at (compose_dict (example_host ''linux'' 1000)
         (example_config 51000 [example_team 0 True, example_team 1 False])) [''networks''])
   \<and> ''wireguard0'' \<notin> set (keys_at (compose_dict (example_host ''linux'' 1000)
         (example_config 51000 [example_team 0 True, example_team 1 False])) [''services''])
   \<and> ''vm-team0'' \<in> set (keys_at (compose_dict (example_host ''linux'' 1000)
         (example_config 51000 [example_team 0 True, example_team 1 False])) [''networks''])
   \<and> ''team0'' \<in> set (keys_at (compose_dict (example_host ''linux'' 1000)
         (example_config 51000 [example_team 0 True, example_team 1 False])) [''services''])"
  using nop_team_excluded [of "example_team 0 True"
      "example_config 51000 [example_team 0 True, example_team 1 False]"
      "example_host ''linux'' 1000"]
  by (simp add: example_config_sel example_team_sel str_int_small del: ypath.simps)

text \<open>
  C5, as the claim states it, fails: in a config where the nop team and a team that is not
  nop both have the id 0, the topology has the network \<open>players0\<close> and the service
  \<open>wireguard0\<close>, and the router is attached to \<open>players0\<close>.
\<close>

theorem nop_team_excluded_counterexample:
  "example_team 0 True \<in> set (teams (example_config 51000 [example_team 0 True, example_team 0 False]))
   \<and> nop (example_team 0 True)
   \<and> id_team (example_team 0 True) = 0
   \<and> ''players0''
       \<in> set (keys_at (compose_dict (example_host ''linux'' 1000)
         (example_config 51000 [example_team 0 True, example_team 0 False])) [''networks''])
   \<and> ''wireguard0''
       \<in> set (keys_at (compose_dict (example_host ''linux'' 1000)
         (example_config 51000 [example_team 0 True, example_team 0 False])) [''services''])
   \<and> ''players0''
       \<in> set (keys_at (compose_dict (example_host ''linux'' 1000)
         (example_config 51000 [example_team 0 True, example_team 0 False]))
         [''services'', ''router'', ''networks''])"
proof -
  let ?c = "example_config 51000 [example_team 0 True, example_team 0 False]"
  let ?h = "example_host ''linux'' 1000"
  have same: "id_team (example_team 0 True) = id_team (example_team 0 False)"
    by (simp add: example_team_sel)
  have active: "example_team 0 False \<in> {t \<in> set (teams ?c). \<not> nop t}"
    by (simp add: example_config_sel example_team_sel)
  have "''players'' @ str_int (id_team (example_team 0 False))
      \<in> (\<lambda>t. ''players'' @ str_int (id_team t)) ` {t \<in> set (teams ?c). \<not> nop t}"
    using active by (rule imageI)
  then have players: "''players'' @ str_int (id_team (example_team 0 False))
      \<in> (\<lambda>t. ''players'' @ str_int (id_team t)) ` {t \<in> set (teams ?c). \<not> nop t}" .
  have "''wireguard'' @ str_int (id_team (example_team 0 False))
      \<in> (\<lambda>t. ''wireguard'' @ str_int (id_team t)) ` {t \<in> set (teams ?c). \<not> nop t}"
    using active by (rule imageI)
  then have vpn: "''wireguard'' @ str_int (id_team (example_team 0 True))
      \<in> set (keys_at (compose_dict ?h ?c) [''services''])"
    unfolding same keys_at_services keys_services by (rule UnI2)
  from players have net: "''players'' @ str_int (id_team (example_team 0 True))
      \<in> set (keys_at (compose_dict ?h ?c) [''networks''])"
    unfolding same keys_at_networks keys_networks by (rule UnI2)
  from players have router: "''players'' @ str_int (id_team (example_team 0 True))
      \<in> set (keys_at (compose_dict ?h ?c) [''services'', ''router'', ''networks''])"
    unfolding same keys_at_router_networks router_networks_keys by (rule UnI2)
  have mem: "example_team 0 True \<in> set (teams ?c)" and is_nop: "nop (example_team 0 True)"
    by (simp_all add: example_config_sel example_team_sel)
  have players0: "''players'' @ str_int (id_team (example_team 0 True)) = ''players0''"
    and wireguard0: "''wireguard'' @ str_int (id_team (example_team 0 True)) = ''wireguard0''"
    and id0: "id_team (example_team 0 True) = 0"
    by (simp_all add: example_team_sel str_int_small)
  from mem is_nop id0 net vpn router show ?thesis
    unfolding players0 wireguard0 by (intro conjI)
qed

section \<open>Attachments of the router\<close>

text \<open>
  C7, as the code has it. The router is attached to every network of the topology except
  \<open>internalnet\<close>: to \<open>externalnet\<close>, to the gameserver network, to every team's VM network
  and to the player network of every team that is not nop. Its environment binds \<open>NTEAM\<close>
  to the number of teams and \<open>RATE_NET\<close> to the bandwidth limit.
\<close>

theorem router_attachments:
  "set (keys_at (compose_dict h c) [''services'', ''router'', ''networks''])
     = set (keys_at (compose_dict h c) [''networks'']) - {''internalnet''}
   \<and> ypath (compose_dict h c) [''services'', ''router'', ''environment'', ''NTEAM'']
       = Some (YInt (int (length (teams c))))
   \<and> ypath (compose_dict h c) [''services'', ''router'', ''environment'', ''RATE_NET'']
       = Some (YStr (network_limit_bandwidth c))"
proof (intro conjI)
  show "set (keys_at (compose_dict h c) [''services'', ''router'', ''networks''])
     = set (keys_at (compose_dict h c) [''networks'']) - {''internalnet''}"
    unfolding keys_at_router_networks keys_at_networks keys_networks router_networks_keys
    by auto
  show "ypath (compose_dict h c) [''services'', ''router'', ''environment'', ''NTEAM'']
       = Some (YInt (int (length (teams c))))"
    unfolding ypath_router by (rule router_environment)
  show "ypath (compose_dict h c) [''services'', ''router'', ''environment'', ''RATE_NET'']
       = Some (YStr (network_limit_bandwidth c))"
    unfolding ypath_router by (rule router_environment)
qed

text \<open>
  C7, as the claim states it, fails: \<open>internalnet\<close> is a network of the topology that the
  router is not attached to.
\<close>

theorem router_attachments_counterexample:
  "\<not> set (keys_at (compose_dict (example_host ''linux'' 1000) (example_config 51000 []))
          [''networks''])
      \<subseteq> set (keys_at (compose_dict (example_host ''linux'' 1000) (example_config 51000 []))
          [''services'', ''router'', ''networks''])"
proof -
  have "''internalnet'' \<in> set (keys_at (compose_dict (example_host ''linux'' 1000)
      (example_config 51000 [])) [''networks''])"
    unfolding keys_at_networks keys_networks by simp
  moreover have "''internalnet'' \<notin> set (keys_at (compose_dict (example_host ''linux'' 1000)
      (example_config 51000 [])) [''services'', ''router'', ''networks''])"
    unfolding keys_at_router_networks router_networks_keys by (simp add: example_config_sel)
  ultimately show ?thesis by blast
qed

theorem router_attachments_witness:
  "set (keys_at (compose_dict (example_host ''linux'' 1000)
         (example_config 51000 [example_team 0 True, example_team 1 False]))
       [''services'', ''router'', ''networks''])
     = set (keys_at (compose_dict (example_host ''linux'' 1000)
         (example_config 51000 [example_team 0 True, example_team 1 False])) [''networks''])
       - {''internalnet''}
   \<and> ''players1'' \<in> set (keys_at (compose_dict (example_host ''linux'' 1000)
         (example_config 51000 [example_team 0 True, example_team 1 False]))
       [''services'', ''router'', ''networks''])
   \<and> ypath (compose_dict (example_host ''linux'' 1000)
         (example_config 51000 [example_team 0 True, example_team 1 False]))
       [''services'', ''router'', ''environment'', ''NTEAM''] = Some (YInt 2)
   \<and> ypath (compose_dict (example_host ''linux'' 1000)
         (example_config 51000 [example_team 0 True, example_team 1 False]))
       [''services'', ''router'', ''environment'', ''RATE_NET''] = Some (YStr ''20mbit'')"
proof -
  let ?c = "example_config 51000 [example_team 0 True, example_team 1 False]"
  let ?h = "example_host ''linux'' 1000"
  note th = router_attachments [of ?h ?c]
  have eq: "''players'' @ str_int (id_team (example_team 1 False)) = ''players1''"
    by (simp add: example_team_sel str_int_small)
  have "example_team 1 False \<in> {t \<in> set (teams ?c). \<not> nop t}"
    by (simp add: example_config_sel example_team_sel)
  then have "''players'' @ str_int (id_team (example_team 1 False))
      \<in> (\<lambda>t. ''players'' @ str_int (id_team t)) ` {t \<in> set (teams ?c). \<not> nop t}"
    by (rule imageI)
  then have "''players'' @ str_int (id_team (example_team 1 False))
      \<in> set (map fst (compose_networks ?c))"
    unfolding keys_networks by (rule UnI2)
  then have "''players1'' \<in> set (keys_at (compose_dict ?h ?c) [''networks'']) - {''internalnet''}"
    unfolding eq keys_at_networks by simp
  with th have p: "''players1'' \<in> set (keys_at (compose_dict ?h ?c)
      [''services'', ''router'', ''networks''])"
    by simp
  from th p show ?thesis
    by (simp add: example_config_sel del: ypath.simps)
qed

section \<open>Consistency of the topology\<close>

lemma router_nets_subset: "V \<union> {g, e} \<union> P \<subseteq> {e, i, g} \<union> V \<union> P"
  by blast

lemma gameserver_deps_subset: "set (r # d # map f ts) \<subseteq> {r, d, g} \<union> f ` set ts \<union> W"
  by auto

lemma fixed_nets_subset:
  "set [i] \<subseteq> {e, i, g} \<union> V \<union> P"
  "set [i, g] \<subseteq> {e, i, g} \<union> V \<union> P"
  by simp_all

lemma team_net_subset: "u \<in> set ts \<Longrightarrow> set [f u] \<subseteq> F \<union> f ` set ts \<union> P"
  by simp

lemma players_net_subset:
  "u \<in> set ts \<Longrightarrow> \<not> nop u \<Longrightarrow> set [f u] \<subseteq> F \<union> V \<union> f ` {t \<in> set ts. \<not> nop t}"
  by simp

text \<open>
  C9. In the compiled topology every name in a service's \<open>depends_on\<close> list is the key of
  a service, and every network a service is attached to is the key of a network
  definition.
\<close>

theorem topology_consistent:
  "\<forall>(k, svc) \<in> set (topology_services (compose_dict h c)).
      set (service_deps svc) \<subseteq> set (keys_at (compose_dict h c) [''services''])
      \<and> set (service_networks svc) \<subseteq> set (keys_at (compose_dict h c) [''networks''])"
proof (intro ballI, clarify)
  fix k svc
  assume "(k, svc) \<in> set (topology_services (compose_dict h c))"
  from service_of_topology [OF this]
  consider (router) "svc = router_service c"
    | (database) "svc = database_service c"
    | (gameserver) "svc = gameserver_service c"
    | (team) u where "u \<in> set (teams c)" "svc = team_service c u"
    | (wireguard) u where "u \<in> set (teams c)" "\<not> nop u" "svc = wireguard_service h c u"
    by blast
  then have deps: "set (service_deps svc) \<subseteq> set (map fst (compose_services h c))"
  proof cases
    case gameserver
    show ?thesis
      unfolding gameserver gameserver_deps keys_services by (rule gameserver_deps_subset)
  qed (simp_all add: router_deps database_deps team_deps wireguard_deps)
  from \<open>(k, svc) \<in> set (topology_services (compose_dict h c))\<close> service_of_topology
  consider (router) "svc = router_service c"
    | (database) "svc = database_service c"
    | (gameserver) "svc = gameserver_service c"
    | (team) u where "u \<in> set (teams c)" "svc = team_service c u"
    | (wireguard) u where "u \<in> set (teams c)" "\<not> nop u" "svc = wireguard_service h c u"
    by blast
  then have nets: "set (service_networks svc) \<subseteq> set (map fst (compose_networks c))"
  proof cases
    case router
    show ?thesis
      unfolding router router_networks_keys keys_networks by (rule router_nets_subset)
  next
    case database
    show ?thesis
      unfolding database database_networks keys_networks by (rule fixed_nets_subset)
  next
    case gameserver
    show ?thesis
      unfolding gameserver gameserver_networks keys_networks by (rule fixed_nets_subset)
  next
    case team
    show ?thesis
      unfolding team(2) team_networks keys_networks by (rule team_net_subset [OF team(1)])
  next
    case wireguard
    show ?thesis
      unfolding wireguard(3) wireguard_networks keys_networks
      by (rule players_net_subset [OF wireguard(1,2)])
  qed
  from deps nets
  show "set (service_deps svc) \<subseteq> set (keys_at (compose_dict h c) [''services''])
      \<and> set (service_networks svc) \<subseteq> set (keys_at (compose_dict h c) [''networks''])"
    unfolding keys_at_services keys_at_networks by simp
qed

theorem topology_consistent_witness:
  "(''gameserver'', gameserver_service (example_config 51000 [example_team 0 True, example_team 1 False]))
     \<in> set (topology_services (compose_dict (example_host ''linux'' 1000)
         (example_config 51000 [example_team 0 True, example_team 1 False])))
   \<and> service_deps (gameserver_service (example_config 51000 [example_team 0 True, example_team 1 False]))
       = [''router'', ''database'', ''team0'', ''team1'']
   \<and> ''router'' \<in> set (keys_at (compose_dict (example_host ''linux'' 1000)
         (example_config 51000 [example_team 0 True, example_team 1 False])) [''services''])
   \<and> ''database'' \<in> set (keys_at (compose_dict (example_host ''linux'' 1000)
         (example_config 51000 [example_team 0 True, example_team 1 False])) [''services''])
   \<and> ''team0'' \<in> set (keys_at (compose_dict (example_host ''linux'' 1000)
         (example_config 51000 [example_team 0 True, example_team 1 False])) [''services''])
   \<and> ''team1'' \<in> set (keys_at (compose_dict (example_host ''linux'' 1000)
         (example_config 51000 [example_team 0 True, example_team 1 False])) [''services''])
   \<and> ''internalnet'' \<in> set (keys_at (compose_dict (example_host ''linux'' 1000)
         (example_config 51000 [example_team 0 True, example_team 1 False])) [''networks''])
   \<and> ''gameserver'' \<in> set (keys_at (compose_dict (example_host ''linux'' 1000)
         (example_config 51000 [example_team 0 True, example_team 1 False])) [''networks''])"
proof -
  let ?c = "example_config 51000 [example_team 0 True, example_team 1 False]"
  let ?h = "example_host ''linux'' 1000"
  have mem: "(''gameserver'', gameserver_service ?c) \<in> set (topology_services (compose_dict ?h ?c))"
    unfolding topology_services_compose by (rule map_of_SomeD) (rule services_fixed)
  have deps: "service_deps (gameserver_service ?c) = [''router'', ''database'', ''team0'', ''team1'']"
    by (simp add: gameserver_deps example_config_sel example_team_sel str_int_small)
  from topology_consistent [of ?h ?c] mem
  have "set (service_deps (gameserver_service ?c)) \<subseteq> set (keys_at (compose_dict ?h ?c) [''services''])
      \<and> set (service_networks (gameserver_service ?c))
          \<subseteq> set (keys_at (compose_dict ?h ?c) [''networks''])"
    by blast
  with mem deps show ?thesis
    by (simp add: gameserver_networks)
qed

section \<open>Where the port range is checked\<close>

lemma number_of_teams_loop_range:
  "number_of_teams_loop d n inp = Inr (m, rest) \<Longrightarrow> 0 \<le> m \<and> m < 250"
  by (induction d n inp rule: number_of_teams_loop.induct)
    (auto split: if_splits sum.splits answer.splits)

lemma start_port_loop_range:
  "start_port_loop k d p inp = Inr (q, rest) \<Longrightarrow> 1 \<le> q \<and> q \<le> 65535 - k"
  by (induction k d p inp rule: start_port_loop.induct)
    (auto split: if_splits sum.splits answer.splits)

lemma ask_number_of_teams_range:
  "ask_number_of_teams d inp = Inr (n, rest) \<Longrightarrow> 0 \<le> n \<and> n < 250"
  unfolding ask_number_of_teams_def
  by (auto split: sum.splits dest: number_of_teams_loop_range)

lemma ask_start_port_range:
  "ask_start_port k d inp = Inr (p, rest) \<Longrightarrow> 1 \<le> p \<and> p \<le> 65535 - k"
  unfolding ask_start_port_def
  by (auto split: sum.splits dest: start_port_loop_range)

lemma team_ids_range:
  assumes "0 \<le> n" "t \<in> set (generate_teams_array tok n e p)"
  shows "0 \<le> id_team t \<and> id_team t \<le> n \<and> wireguard_port t = p + id_team t"
  using assms by (auto simp: generate_teams_array_map new_team_fields split: if_splits)

lemma generate_teams_array_5:
  "generate_teams_array tok 5 False p =
     [new_team tok False p 0, new_team tok False p 1, new_team tok False p 2,
      new_team tok False p 3, new_team tok False p 4]"
  by (simp add: generate_teams_array_map upto_rec1)

lemma write_compose_head: "take 10 (write_compose h c) = ''services:\<newline>''"
  by (simp add: write_compose_def compose_dict_def py_dict_distinct spaces_of_def)

text \<open>
  C6, as the code has it. \<open>write_compose\<close> checks nothing. The range is checked where
  \<open>config_input\<close> reads a new configuration: the answers it accepts satisfy
  \<open>0 \<le> number_of_teams < 250\<close> and \<open>1 \<le> start port \<le> 65535 - number_of_teams\<close>, so every
  team generated from them, with or without a nop team, has a port between 1 and 65535.
\<close>

theorem port_range_checked_at_input:
  assumes "ask_number_of_teams d1 inp = Inr (n, rest)"
    and "ask_start_port n d2 rest = Inr (p, rest')"
  shows "0 \<le> n \<and> n < 250 \<and> 1 \<le> p \<and> p \<le> 65535 - n
    \<and> (\<forall>t \<in> set (generate_teams_array tok n e p).
          wireguard_port t = p + id_team t \<and> 1 \<le> wireguard_port t \<and> wireguard_port t \<le> 65535)"
proof -
  from ask_number_of_teams_range [OF assms(1)] have n: "0 \<le> n" "n < 250" by simp_all
  from ask_start_port_range [OF assms(2)] have p: "1 \<le> p" "p \<le> 65535 - n" by simp_all
  have "wireguard_port t = p + id_team t \<and> 1 \<le> wireguard_port t \<and> wireguard_port t \<le> 65535"
    if "t \<in> set (generate_teams_array tok n e p)" for t
    using team_ids_range [OF n(1) that] p by auto
  with n p show ?thesis by blast
qed

theorem port_range_checked_at_input_witness:
  "ask_number_of_teams 4 [Number 5, Number 65533, Blank] = Inr (5, [Number 65533, Blank])
   \<and> ask_start_port 5 51000 [Number 65533, Blank] = Inr (51000, [])
   \<and> (0::int) \<le> 5 \<and> (5::int) < 250 \<and> (1::int) \<le> 51000 \<and> (51000::int) \<le> 65535 - 5
   \<and> map wireguard_port (generate_teams_array example_tok 5 False 51000)
       = [51000, 51001, 51002, 51003, 51004]"
proof -
  have a: "ask_number_of_teams 4 [Number 5, Number 65533, Blank] = Inr (5, [Number 65533, Blank])"
    by (simp add: ask_number_of_teams_def)
  have b: "ask_start_port 5 51000 [Number 65533, Blank] = Inr (51000, [])"
    by (simp add: ask_start_port_def)
  from port_range_checked_at_input [OF a b, of example_tok False]
  have "map wireguard_port (generate_teams_array example_tok 5 False 51000)
      = map (\<lambda>t. 51000 + id_team t) (generate_teams_array example_tok 5 False 51000)"
    by simp
  also have "\<dots> = [51000, 51001, 51002, 51003, 51004]"
    by (simp add: generate_teams_array_5 new_team_fields)
  finally have q: "map wireguard_port (generate_teams_array example_tok 5 False 51000)
      = [51000, 51001, 51002, 51003, 51004]" .
  from a b q show ?thesis
    by (intro conjI; (assumption | simp))
qed

text \<open>
  C6, as the claim states it, fails: the configuration with start port 65533 and five
  teams is compiled; the document begins with the \<open>services\<close> entry and the VPN endpoint
  services bind the ports 65533 to 65537.
\<close>

theorem write_compose_rejects_counterexample:
  "take 10 (write_compose (example_host ''linux'' 1000)
      (example_config 65533 (generate_teams_array example_tok 5 False 65533))) = ''services:\<newline>''
   \<and> allocated_ports (compose_dict (example_host ''linux'' 1000)
      (example_config 65533 (generate_teams_array example_tok 5 False 65533)))
     = [65533, 65534, 65535, 65536, 65537]"
proof -
  let ?c = "example_config 65533 (generate_teams_array example_tok 5 False 65533)"
  have "distinct (map id_team (teams ?c))"
    by (simp add: example_config_sel generate_teams_array_5 new_team_fields)
  from allocated_ports_explicit [OF this, of "example_host ''linux'' 1000"]
  have "allocated_ports (compose_dict (example_host ''linux'' 1000) ?c)
     = [65533, 65534, 65535, 65536, 65537]"
    by (simp add: example_config_sel generate_teams_array_5 new_team_fields)
  then show ?thesis
    by (simp only: write_compose_head simp_thms)
qed

section \<open>What the rendered document depends on\<close>

lemma wireguard_service_host:
  assumes "(if is_linux h1 then getuid h1 else 0) = (if is_linux h2 then getuid h2 else 0)"
    and "(if is_linux h1 then getgid h1 else 0) = (if is_linux h2 then getgid h2 else 0)"
  shows "wireguard_service h1 c t = wireguard_service h2 c t"
  unfolding wireguard_service_def using assms by presburger

lemma compose_services_host:
  assumes "(if is_linux h1 then getuid h1 else 0) = (if is_linux h2 then getuid h2 else 0)"
    and "(if is_linux h1 then getgid h1 else 0) = (if is_linux h2 then getgid h2 else 0)"
  shows "compose_services h1 c = compose_services h2 c"
  unfolding compose_services_def wireguard_service_host [OF assms] ..

lemma compose_services_all_nop:
  assumes "\<forall>t \<in> set (teams c). nop t"
  shows "compose_services h1 c = compose_services h2 c"
proof -
  from assms have "filter (\<lambda>team. \<not> nop team) (teams c) = []"
    by (simp add: filter_empty_conv)
  then show ?thesis
    unfolding compose_services_def by simp
qed

text \<open>
  C1, as the code has it. The document is a function of the config and of the ids that the
  VPN endpoint services bind as \<open>PUID\<close> and \<open>PGID\<close>: \<open>os.getuid()\<close> and \<open>os.getgid()\<close> on
  Linux, 0 elsewhere. Two runs that agree on these render the same text for the same
  config; when every team is a nop team the text does not depend on the host at all.
\<close>

theorem write_compose_deterministic:
  "((if is_linux h1 then getuid h1 else 0) = (if is_linux h2 then getuid h2 else 0)
      \<and> (if is_linux h1 then getgid h1 else 0) = (if is_linux h2 then getgid h2 else 0)
    \<or> (\<forall>t \<in> set (teams c). nop t))
   \<longrightarrow> write_compose h1 c = write_compose h2 c"
proof
  assume "(if is_linux h1 then getuid h1 else 0) = (if is_linux h2 then getuid h2 else 0)
      \<and> (if is_linux h1 then getgid h1 else 0) = (if is_linux h2 then getgid h2 else 0)
    \<or> (\<forall>t \<in> set (teams c). nop t)"
  then have "compose_services h1 c = compose_services h2 c"
    using compose_services_host [of h1 h2 c] compose_services_all_nop [of c h1 h2] by blast
  then show "write_compose h1 c = write_compose h2 c"
    by (simp add: write_compose_def compose_dict_def)
qed

lemma is_linux_example:
  "is_linux (example_host ''linux'' u)"
  "\<not> is_linux (example_host ''darwin'' u)"
  by (simp_all add: is_linux_def example_host_def)

lemma example_host_sel:
  "getuid (example_host p u) = u"
  "getgid (example_host p u) = u"
  by (simp_all add: example_host_def)

theorem write_compose_deterministic_witness:
  "(if is_linux (example_host ''darwin'' 501) then getuid (example_host ''darwin'' 501) else 0)
     = (if is_linux (example_host ''darwin'' 502) then getuid (example_host ''darwin'' 502) else 0)
   \<and> (if is_linux (example_host ''darwin'' 501) then getgid (example_host ''darwin'' 501) else 0)
     = (if is_linux (example_host ''darwin'' 502) then getgid (example_host ''darwin'' 502) else 0)
   \<and> example_host ''darwin'' 501 \<noteq> example_host ''darwin'' 502
   \<and> write_compose (example_host ''darwin'' 501) (example_config 51000 [example_team 0 False])
     = write_compose (example_host ''darwin'' 502) (example_config 51000 [example_team 0 False])
   \<and> teams (example_config 51000 [example_team 0 True]) = [example_team 0 True]
   \<and> nop (example_team 0 True)
   \<and> write_compose (example_host ''linux'' 0) (example_config 51000 [example_team 0 True])
     = write_compose (example_host ''linux'' 1000) (example_config 51000 [example_team 0 True])"
proof -
  have ne: "example_host ''darwin'' 501 \<noteq> example_host ''darwin'' 502"
    by (simp add: example_host_def)
  from write_compose_deterministic [of "example_host ''darwin'' 501" "example_host ''darwin'' 502"
      "example_config 51000 [example_team 0 False]"]
  have a: "write_compose (example_host ''darwin'' 501) (example_config 51000 [example_team 0 False])
     = write_compose (example_host ''darwin'' 502) (example_config 51000 [example_team 0 False])"
    by (simp add: is_linux_example)
  from write_compose_deterministic [of "example_host ''linux'' 0" "example_host ''linux'' 1000"
      "example_config 51000 [example_team 0 True]"]
  have b: "write_compose (example_host ''linux'' 0) (example_config 51000 [example_team 0 True])
     = write_compose (example_host ''linux'' 1000) (example_config 51000 [example_team 0 True])"
    by (simp add: example_config_sel example_team_sel)
  from ne a b show ?thesis
    by (simp add: is_linux_example example_config_sel example_team_sel)
qed

lemma dict_items_append:
  "dict_items (xs @ ys) u b a (spaces_of (u * b + a)) None
     = dict_items xs u b a (spaces_of (u * b + a)) None
       @ dict_items ys u b a (spaces_of (u * b + a)) None"
  by (induction xs) (auto simp: Let_def)

lemma write_compose_split:
  "write_compose h c =
     ''services:\<newline>'' @ dict_items (compose_services h c) 4 1 0 (spaces_of 4) None
     @ dict_items [(''volumes'', YDict (py_dict [(''unixsk'', YStr []), (''oasis-postgres-db'', YStr [])])),
          (''networks'', YDict (compose_networks c))] 4 0 0 (spaces_of 0) None"
  by (simp add: write_compose_def compose_dict_def py_dict_distinct spaces_of_def)

lemma wireguard_render_differs:
  "dict_to_yaml (wireguard_service (example_host ''linux'' 0)
       (example_config 51000 [example_team 0 False]) (example_team 0 False)) 4 2 0 None
   \<noteq> dict_to_yaml (wireguard_service (example_host ''linux'' 1000)
       (example_config 51000 [example_team 0 False]) (example_team 0 False)) 4 2 0 None"
  by (simp add: wireguard_service_def py_dict_distinct is_linux_example example_host_sel
      spaces_of_def str_int_def str_nat.simps digit_char_def)


lemma services_render_snoc:
  "dict_items (xs @ [(k, YDict kvs)]) 4 1 0 (spaces_of 4) None
     = dict_items xs 4 1 0 (spaces_of 4) None
       @ spaces_of 4 @ k @ '':\<newline>'' @ dict_to_yaml (YDict kvs) 4 2 0 None"
  using dict_items_append [of xs "[(k, YDict kvs)]" 4 1 0] by simp

text \<open>
  C1, as the claim states it, fails: one config with one team that is not nop, compiled
  on Linux by the users 0 and 1000, gives two different documents.
\<close>

theorem write_compose_deterministic_counterexample:
  "write_compose (example_host ''linux'' 0) (example_config 51000 [example_team 0 False])
   \<noteq> write_compose (example_host ''linux'' 1000) (example_config 51000 [example_team 0 False])"
proof -
  let ?c = "example_config 51000 [example_team 0 False]"
  let ?t = "example_team 0 False"
  have "distinct (map id_team (teams ?c))"
    by (simp add: example_config_sel)
  from services_explicit [OF this]
  have services: "compose_services h ?c =
      [(''router'', router_service ?c), (''database'', database_service ?c),
       (''gameserver'', gameserver_service ?c),
       (''team'' @ str_int (id_team ?t), team_service ?c ?t)]
      @ [(''wireguard'' @ str_int (id_team ?t), wireguard_service h ?c ?t)]" for h
    by (simp add: example_config_sel example_team_sel)
  obtain kvs0 where w0: "wireguard_service (example_host ''linux'' 0) ?c ?t = YDict kvs0"
    by (simp add: wireguard_service_def)
  obtain kvs1 where w1: "wireguard_service (example_host ''linux'' 1000) ?c ?t = YDict kvs1"
    by (simp add: wireguard_service_def)
  from wireguard_render_differs
  have "dict_to_yaml (YDict kvs0) 4 2 0 None \<noteq> dict_to_yaml (YDict kvs1) 4 2 0 None"
    unfolding w0 w1 .
  then show ?thesis
    unfolding write_compose_split services w0 w1 services_render_snoc
    by (simp only: append_assoc same_append_eq append_same_eq simp_thms)
qed

section \<open>Layout rules of \<open>dict_to_yaml\<close>\<close>

lemma column_law:
  "u * b + a = u * b' + a' \<Longrightarrow> dict_to_yaml v u b a mk = dict_to_yaml v u b' a' mk"
  "u * b + a = u * b' + a' \<Longrightarrow> dict_items kvs u b a sp mk = dict_items kvs u b' a' sp mk"
  "u * b + a = u * b' + a' \<Longrightarrow> list_items xs u b a = list_items xs u b' a'"
proof (induction v u b a mk and kvs u b a sp mk and xs u b a
    arbitrary: b' a' and b' a' and b' a' rule: dict_to_yaml_dict_items_list_items.induct)
  case (1 kvs u b a mk)
  then show ?case by simp
next
  case (2 xs u b a mk)
  then show ?case by simp
next
  case (3 s u b a mk)
  show ?case by simp
next
  case (4 n u b a mk)
  show ?case by simp
next
  case (5 u b a sp mk)
  show ?case by simp
next
  case (6 key val rest u b a sp mk)
  have deeper: "u * (b + 1) + a = u * (b' + 1) + a'"
    using "6.prems" by (simp add: algebra_simps)
  have rest: "dict_items rest u b a (spaces_of (u * b + a)) None
      = dict_items rest u b' a' (spaces_of (u * b' + a')) None"
    using "6.IH"(2) [OF refl "6.prems"] "6.prems" by simp
  show ?case
  proof (cases "is_container val")
    case True
    with "6.IH"(1) [OF refl True deeper] rest show ?thesis by (simp add: Let_def)
  next
    case False
    with rest show ?thesis by (simp add: Let_def)
  qed
next
  case (7 u b a)
  show ?case by simp
next
  case (8 item rest u b a)
  have deeper: "u * (b + 1) + a = u * (b' + 1) + a'"
    and marker: "u * b + (a + 2) = u * b' + (a' + 2)"
    using "8.prems" by (simp_all add: algebra_simps)
  have rest: "list_items rest u b a = list_items rest u b' a'"
    using "8.IH"(3) [OF "8.prems"] .
  show ?case
  proof (cases item)
    case (YDict kvs)
    with "8.IH"(1) [OF YDict marker] rest show ?thesis by simp
  next
    case (YList ys)
    with "8.IH"(2) [OF YList deeper] rest show ?thesis by simp
  next
    case (YStr s)
    with rest "8.prems" show ?thesis by simp
  next
    case (YInt n)
    with rest "8.prems" show ?thesis by simp
  qed
qed


lemma spaces_of_length: "length (spaces_of n) = nat n"
  by (simp add: spaces_of_def)

lemma dict_entries_split:
  "dict_to_yaml (YDict (kv # kvs)) u b a None
     = dict_to_yaml (YDict [kv]) u b a None @ dict_to_yaml (YDict kvs) u b a None"
  by (cases kv) (simp add: Let_def)

lemma list_elements_split:
  "dict_to_yaml (YList (x # xs)) u b a None
     = dict_to_yaml (YList [x]) u b a None @ dict_to_yaml (YList xs) u b a None"
  by simp

lemma marker_overlay:
  assumes "kvs \<noteq> []"
  shows "take (length sp) (dict_items kvs u b a sp None) = sp"
    and "dict_items kvs u b a sp (Some m)
      = spaces_of (max (int (length sp) - int (length m)) 0) @ m
        @ drop (length sp) (dict_items kvs u b a sp None)"
proof -
  from assms obtain k v rest where kvs: "kvs = (k, v) # rest"
    by (cases kvs) auto
  show "take (length sp) (dict_items kvs u b a sp None) = sp"
    unfolding kvs by (simp add: Let_def)
  show "dict_items kvs u b a sp (Some m)
      = spaces_of (max (int (length sp) - int (length m)) 0) @ m
        @ drop (length sp) (dict_items kvs u b a sp None)"
    unfolding kvs by (simp add: Let_def)
qed

text \<open>
  C8. With the indentation unit \<open>u\<close> and a block that starts at column \<open>u * b + a\<close>:
  a key with a scalar value is one line at that column; a mapping or sequence nested under
  a key is laid out one unit deeper; the entries of a mapping and the elements of a
  sequence follow each other; a scalar element is a marker line; a sequence nested in a
  sequence is laid out one unit deeper; an element that is a non-empty mapping is that
  mapping laid out two columns deeper, with the marker written over the indentation of its
  first line, so that the first key shares the marker's line and the later keys stand under
  it; a key whose value is the empty mapping is the key line alone, also inside a sequence
  of mappings.
\<close>

theorem yaml_layout:
  assumes "0 \<le> u" and "0 \<le> b" and "0 \<le> a"
  shows "(\<not> is_container v \<longrightarrow>
        dict_to_yaml (YDict [(k, v)]) u b a None
          = spaces_of (u * b + a) @ k @ '': '' @ fmt v @ ''\<newline>'')
    \<and> (is_container w \<longrightarrow>
        dict_to_yaml (YDict [(k, w)]) u b a None
          = spaces_of (u * b + a) @ k @ '':\<newline>'' @ dict_to_yaml w u 0 (u * b + a + u) None)
    \<and> dict_to_yaml (YDict (kv # kvs)) u b a None
        = dict_to_yaml (YDict [kv]) u b a None @ dict_to_yaml (YDict kvs) u b a None
    \<and> dict_to_yaml (YList (x # xs)) u b a None
        = dict_to_yaml (YList [x]) u b a None @ dict_to_yaml (YList xs) u b a None
    \<and> (\<not> is_container v \<longrightarrow>
        dict_to_yaml (YList [v]) u b a None = spaces_of (u * b + a) @ ''- '' @ fmt v @ ''\<newline>'')
    \<and> dict_to_yaml (YList [YList ys]) u b a None = dict_to_yaml (YList ys) u 0 (u * b + a + u) None
    \<and> (m \<noteq> [] \<longrightarrow>
        take (nat (u * b + a) + 2) (dict_to_yaml (YDict m) u 0 (u * b + a + 2) None)
          = spaces_of (u * b + a + 2)
        \<and> dict_to_yaml (YList [YDict m]) u b a None
          = spaces_of (u * b + a) @ ''- ''
            @ drop (nat (u * b + a) + 2) (dict_to_yaml (YDict m) u 0 (u * b + a + 2) None))
    \<and> dict_to_yaml (YDict [(k, YDict [])]) u b a None = spaces_of (u * b + a) @ k @ '':\<newline>''
    \<and> dict_to_yaml (YList [YDict [(k, YDict [])]]) u b a None
        = spaces_of (u * b + a) @ ''- '' @ k @ '':\<newline>''"
proof -
  have col: "0 \<le> u * b + a"
    using assms by simp
  have deeper: "dict_to_yaml t u (b + 1) a None = dict_to_yaml t u 0 (u * b + a + u) None" for t
    by (rule column_law) (simp add: algebra_simps)
  have scalar_entry: "dict_to_yaml (YDict [(k, v)]) u b a None
          = spaces_of (u * b + a) @ k @ '': '' @ fmt v @ ''\<newline>''"
    if "\<not> is_container v"
    using that by (simp add: Let_def)
  have nested_entry: "dict_to_yaml (YDict [(k, w)]) u b a None
          = spaces_of (u * b + a) @ k @ '':\<newline>'' @ dict_to_yaml w u 0 (u * b + a + u) None"
    if "is_container w"
    using that by (simp add: Let_def deeper)
  have scalar_element: "dict_to_yaml (YList [v]) u b a None
      = spaces_of (u * b + a) @ ''- '' @ fmt v @ ''\<newline>''"
    if "\<not> is_container v"
    using that by (cases v) simp_all
  have nested_list: "dict_to_yaml (YList [YList ys]) u b a None
      = dict_to_yaml (YList ys) u 0 (u * b + a + u) None"
    using deeper [of "YList ys"] by simp
  have mapping_element:
    "take (nat (u * b + a) + 2) (dict_to_yaml (YDict m) u 0 (u * b + a + 2) None)
          = spaces_of (u * b + a + 2)
     \<and> dict_to_yaml (YList [YDict m]) u b a None
          = spaces_of (u * b + a) @ ''- ''
            @ drop (nat (u * b + a) + 2) (dict_to_yaml (YDict m) u 0 (u * b + a + 2) None)"
    if m: "m \<noteq> []"
  proof -
    let ?sp = "spaces_of (u * b + a + 2)"
    have len: "length ?sp = nat (u * b + a) + 2"
      using col by (simp add: spaces_of_length nat_add_distrib)
    have same: "dict_to_yaml (YDict m) u 0 (u * b + a + 2) None = dict_items m u b (a + 2) ?sp None"
      using column_law(1) [of u 0 "u * b + a + 2" b "a + 2" "YDict m" None]
      by (simp add: algebra_simps)
    have first: "take (nat (u * b + a) + 2) (dict_to_yaml (YDict m) u 0 (u * b + a + 2) None) = ?sp"
      unfolding same using marker_overlay(1) [OF m, of ?sp u b "a + 2"] by (simp only: len)
    have "dict_to_yaml (YList [YDict m]) u b a None = dict_items m u b (a + 2) ?sp (Some ''- '')"
      by (simp add: algebra_simps)
    also have "\<dots> = spaces_of (max (int (length ?sp) - int (length ''- '')) 0) @ ''- ''
        @ drop (length ?sp) (dict_items m u b (a + 2) ?sp None)"
      by (rule marker_overlay(2) [OF m])
    also have "spaces_of (max (int (length ?sp) - int (length ''- '')) 0) = spaces_of (u * b + a)"
      using col by (simp add: len)
    finally have "dict_to_yaml (YList [YDict m]) u b a None
        = spaces_of (u * b + a) @ ''- ''
          @ drop (nat (u * b + a) + 2) (dict_to_yaml (YDict m) u 0 (u * b + a + 2) None)"
      by (simp only: len same)
    with first show ?thesis by simp
  qed
  have empty_entry: "dict_to_yaml (YDict [(k, YDict [])]) u b a None
      = spaces_of (u * b + a) @ k @ '':\<newline>''"
    by (simp add: Let_def)
  have empty_in_list: "dict_to_yaml (YList [YDict [(k, YDict [])]]) u b a None
        = spaces_of (u * b + a) @ ''- '' @ k @ '':\<newline>''"
    using col by (simp add: Let_def spaces_of_length algebra_simps)
  from scalar_entry nested_entry scalar_element nested_list mapping_element empty_entry
    empty_in_list dict_entries_split [of kv kvs u b a] list_elements_split [of x xs u b a]
  show ?thesis by blast
qed

theorem yaml_layout_witness:
  "(0::int) \<le> 4 \<and> (0::int) \<le> 1 \<and> (0::int) \<le> 0
   \<and> \<not> is_container (YInt 2) \<and> is_container (YList [YInt 1])
   \<and> [(''a'', YDict []), (''b'', YInt 2)] \<noteq> []
   \<and> dict_to_yaml (YDict [(''k'', YInt 2)]) 4 1 0 None = ''    k: 2\<newline>''
   \<and> dict_to_yaml (YDict [(''k'', YList [YInt 1])]) 4 1 0 None
       = ''    k:\<newline>        - 1\<newline>''
   \<and> dict_to_yaml (YList [YDict [(''a'', YDict []), (''b'', YInt 2)]]) 4 1 0 None
       = ''    - a:\<newline>      b: 2\<newline>''
   \<and> dict_to_yaml (YList [YDict [(''k'', YDict [])]]) 4 1 0 None = ''    - k:\<newline>''"
  using yaml_layout [of 4 1 0 "YInt 2" "''k''" "YList [YInt 1]" "(''a'', YDict [])"
      "[(''b'', YInt 2)]" "YInt 5" "[]" "[]" "[(''a'', YDict []), (''b'', YInt 2)]"]
  by (simp add: spaces_of_def str_int_small Let_def eval_nat_numeral)

end
